theory Spec2Isabelle
  imports
    Complex_Main
    "HOL-Library.Multiset"
    "HOL-Library.Option_ord"
    "HOL-Library.Char_ord"
    "HOL-Library.List_Lexorder"
begin

section \<open>Healthcare MDM app (src/app/app.py): data model\<close>

text \<open>
  The app keeps its configuration and its query cache in Streamlit's session state, and
  delegates every computation on patient data to SQL statements that it sends to a
  Databricks warehouse. The embedding follows that split: the
  Python functions are state-passing functions on the record \<open>app\<close>; a statement is
  a value of \<open>statement\<close>, whose meaning (\<open>execute\<close>, further down) is written from the SQL
  text of the statement; the hosted model behind \<open>ai_query\<close>, JSON extraction and SQL
  casts are parameters (\<open>engine\<close>), since their results are not fixed by the repository.
  A call of the model and a cast can fail, and the statement that makes the call then
  fails as a whole.
\<close>

type_synonym time = rat
  \<comment> \<open>seconds, as read by \<open>time.time()\<close> and \<open>CURRENT_TIMESTAMP()\<close>\<close>

type_synonym exn = string
  \<comment> \<open>a Python \<open>Exception\<close>, by its message \<open>str(e)\<close>\<close>

record db_config =
  catalog_name :: string
  schema_name :: string
  table_name :: string
  golden_table_name :: string

text \<open>
  A row of the source table: the columns that the statements of the app read. Ids are
  natural numbers, as in the demo data and as an identity column generates them; every
  other column is a nullable text.
\<close>

record patient =
  patient_id :: nat
  medical_record_num :: "string option"
  patient_name :: "string option"
  date_of_birth :: "string option"
  medicare_number :: "string option"
  phone :: "string option"
  email :: "string option"
  address :: "string option"
  suburb :: "string option"
  state :: "string option"
  postcode :: "string option"
  private_health_fund :: "string option"
  membership_number :: "string option"
  emergency_contact :: "string option"
  gp_name :: "string option"
  blood_type :: "string option"
  gender :: "string option"
  source_system :: "string option"

text \<open>A row of the result of \<open>fetch_quality_data\<close>.\<close>

record quality_row =
  q_patient_id :: nat
  q_patient_name :: "string option"
  q_source_system :: "string option"
  quality_score :: "string option"
  completeness :: "string option"
  issues :: "string option"

text \<open>A row of the result of \<open>fetch_duplicate_data\<close>.\<close>

record pair_row =
  id1 :: nat
  id2 :: nat
  name1 :: "string option"
  name2 :: "string option"
  system1 :: "string option"
  system2 :: "string option"
  similarity_score :: "string option"
  is_match :: "string option"
  confidence :: "string option"
  match_reason :: "string option"

text \<open>
  A row of the golden table is addressed by column name, as the \<open>UPDATE\<close> statements of
  the app do; \<open>None\<close> is a column that the row does not have.
\<close>

datatype sqlval = SNull | SStr string | SInt nat | SDouble rat | STimestamp time | SDate string

text \<open>The column types of the golden table.\<close>

datatype sqltype = BIGINT | STRING | DATE | DOUBLE | TIMESTAMP

type_synonym golden_row = "string \<rightharpoonup> sqlval"

text \<open>
  What a query function returns (a pandas \<open>DataFrame\<close>). \<open>DemoPatients\<close> and
  \<open>DemoQuality\<close> are the two fixed frames built by \<open>generate_demo_data()\<close> and
  \<open>generate_demo_quality_data()\<close>; \<open>EmptyFrame\<close> is \<open>pd.DataFrame()\<close>;
  \<open>StatementResult\<close> is what a statement without a result set gives back.
\<close>

datatype dataframe =
    EmptyFrame
  | DemoPatients
  | DemoQuality
  | PatientRows "patient list"
  | QualityRows "quality_row list"
  | DuplicateRows "pair_row list"
  | GoldenRows "golden_row list"
  | StatementResult

datatype message = Error string | Success string | Info string | Warning string

text \<open>
  The response formats that the statements pass to \<open>ai_query\<close> are three fixed JSON
  schemas (named \<open>quality\<close>, \<open>similarity\<close> and \<open>golden_record\<close> in the source); the
  same-person call passes none.
\<close>

datatype response_format = NoFormat | QualityFormat | SimilarityFormat | GoldenRecordFormat

text \<open>
  The services of the warehouse that the repository does not define, each a function of
  its arguments. A call of the model endpoint can fail (endpoint missing, rate limit,
  timeout) and so can a cast of a text that does not denote a value of the target type
  (under ANSI mode): these return \<open>Inl\<close> the error, with which the whole statement
  fails. \<open>to_json\<close> and \<open>get_json_object\<close> do not fail (the latter is \<open>NULL\<close> on a text
  that is not JSON).
\<close>

record engine =
  ai_query :: "string \<Rightarrow> string option \<Rightarrow> response_format \<Rightarrow> exn + string option"
    \<comment> \<open>model name, prompt (\<open>None\<close> is SQL \<open>NULL\<close>), response format; the response\<close>
  to_json :: "(string \<times> string option) list \<Rightarrow> string option"
    \<comment> \<open>\<open>to_json(struct(...))\<close> of the named columns\<close>
  get_json_object :: "string option \<Rightarrow> string \<Rightarrow> string option"
  cast_double :: "string option \<Rightarrow> exn + rat option"
    \<comment> \<open>\<open>CAST(... AS DOUBLE)\<close>, also the implicit one of a comparison with a number\<close>
  cast_int :: "string option \<Rightarrow> exn + int option"
  cast_literal :: "sqltype \<Rightarrow> string \<Rightarrow> exn + sqlval"
    \<comment> \<open>the cast of a text that is stored in a column of another type than \<open>STRING\<close>\<close>

record warehouse =
  reachable :: "string option \<Rightarrow> bool"
    \<comment> \<open>whether a connection with these credentials can run a statement\<close>
  source_tables :: "string \<rightharpoonup> patient list"
  golden_tables :: "string \<rightharpoonup> golden_row list"
  next_identity :: nat
  current_timestamp :: time

record app =
  db_config :: db_config
  ai_model_name :: string
  data_cache :: "string \<rightharpoonup> dataframe"
  cache_timestamps :: "string \<rightharpoonup> time"
  clock :: time
  messages :: "message list"
  wh :: warehouse

section \<open>The query cache\<close>

definition CACHE_EXPIRY :: time where
  "CACHE_EXPIRY = 300"

definition st_error :: "app \<Rightarrow> string \<Rightarrow> app" where
  "st_error s msg = s\<lparr>messages := messages s @ [Error msg]\<rparr>"

definition st_success :: "app \<Rightarrow> string \<Rightarrow> app" where
  "st_success s msg = s\<lparr>messages := messages s @ [Success msg]\<rparr>"

definition generate_demo_data :: dataframe where
  "generate_demo_data = DemoPatients"

definition generate_demo_quality_data :: dataframe where
  "generate_demo_quality_data = DemoQuality"

definition is_cache_valid :: "app \<Rightarrow> string \<Rightarrow> bool" where
  "is_cache_valid s cache_key =
     (case cache_timestamps s cache_key of
        None \<Rightarrow> False
      | Some cache_time \<Rightarrow> clock s - cache_time < CACHE_EXPIRY)"

definition get_cached_data :: "app \<Rightarrow> string \<Rightarrow> dataframe option" where
  "get_cached_data s cache_key =
     (if is_cache_valid s cache_key then data_cache s cache_key else None)"

definition set_cached_data :: "app \<Rightarrow> string \<Rightarrow> dataframe \<Rightarrow> app" where
  "set_cached_data s cache_key data =
     s\<lparr>data_cache := (data_cache s)(cache_key \<mapsto> data),
       cache_timestamps := (cache_timestamps s)(cache_key \<mapsto> clock s)\<rparr>"

definition clear_cache :: "app \<Rightarrow> app" where
  "clear_cache s = s\<lparr>data_cache := Map.empty, cache_timestamps := Map.empty\<rparr>"

text \<open>Python's \<open>needle in haystack\<close> on strings.\<close>

fun starts_with :: "string \<Rightarrow> string \<Rightarrow> bool" where
  "starts_with [] _ = True"
| "starts_with (p # ps) [] = False"
| "starts_with (p # ps) (c # cs) = (p = c \<and> starts_with ps cs)"

fun str_contains :: "string \<Rightarrow> string \<Rightarrow> bool" where
  "str_contains needle [] = (needle = [])"
| "str_contains needle (c # cs) = (starts_with needle (c # cs) \<or> str_contains needle cs)"

text \<open>
  The key that \<open>async_query_wrapper\<close> builds:
  \<^verbatim>\<open>f"{func.__name__}_{config['catalog_name']}_{config['schema_name']}_{config['table_name']}"\<close>.
\<close>

definition cache_key_of :: "string \<Rightarrow> db_config \<Rightarrow> string" where
  "cache_key_of func_name config =
     func_name @ ''_'' @ catalog_name config @ ''_'' @ schema_name config @ ''_'' @ table_name config"

text \<open>
  The decorator. \<open>func\<close> is the decorated function: it returns \<open>Inr\<close> its frame or
  \<open>Inl\<close> the exception it raised, and the state it left. The wrapper itself catches
  every \<open>Exception\<close>: all its results are \<open>Inr\<close>.
\<close>

definition async_query_wrapper ::
  "string \<Rightarrow> (app \<Rightarrow> (exn + dataframe) \<times> app) \<Rightarrow> app \<Rightarrow> (exn + dataframe) \<times> app" where
  "async_query_wrapper func_name func s =
     (let config = db_config s;
          cache_key = cache_key_of func_name config
      in case get_cached_data s cache_key of
           Some cached_data \<Rightarrow> (Inr cached_data, s)
         | None \<Rightarrow>
             (case func s of
                (Inr result, s1) \<Rightarrow> (Inr result, set_cached_data s1 cache_key result)
              | (Inl e, s1) \<Rightarrow>
                  (let s2 = st_error s1 (''Query failed: '' @ e) in
                   if str_contains ''patient'' func_name then (Inr generate_demo_data, s2)
                   else if str_contains ''quality'' func_name then (Inr generate_demo_quality_data, s2)
                   else (Inr EmptyFrame, s2))))"

definition get_ai_model_name :: "app \<Rightarrow> string" where
  "get_ai_model_name s = ai_model_name s"

definition get_table_reference :: "app \<Rightarrow> string \<Rightarrow> string" where
  "get_table_reference s table_type =
     (let config = db_config s in
      if table_type = ''golden''
      then catalog_name config @ ''.'' @ schema_name config @ ''.'' @ golden_table_name config
      else catalog_name config @ ''.'' @ schema_name config @ ''.'' @ table_name config)"

section \<open>SQL building blocks\<close>

text \<open>
  A statement fails with the first error of the calls it makes: \<open>and_then\<close> passes a
  result on, \<open>try_all\<close> collects the results of the rows.
\<close>

definition and_then :: "exn + 'a \<Rightarrow> ('a \<Rightarrow> exn + 'b) \<Rightarrow> exn + 'b" where
  "and_then r f = (case r of Inl e \<Rightarrow> Inl e | Inr x \<Rightarrow> f x)"

fun try_all :: "(exn + 'a) list \<Rightarrow> exn + 'a list" where
  "try_all [] = Inr []"
| "try_all (r # rs) =
     (case r of
        Inl e \<Rightarrow> Inl e
      | Inr x \<Rightarrow> (case try_all rs of Inl e \<Rightarrow> Inl e | Inr xs \<Rightarrow> Inr (x # xs)))"

text \<open>\<open>CONCAT\<close> is \<open>NULL\<close> as soon as one argument is.\<close>

definition sql_concat :: "string option list \<Rightarrow> string option" where
  "sql_concat parts = map_option concat (those parts)"

text \<open>An integer cast to a string: its decimal digits.\<close>

fun string_of_nat :: "nat \<Rightarrow> string" where
  "string_of_nat n =
     (if n < 10 then [''0123456789'' ! n]
      else string_of_nat (n div 10) @ [''0123456789'' ! (n mod 10)])"

declare string_of_nat.simps [simp del]

text \<open>A decimal literal read back as a number.\<close>

definition digit_value :: "char \<Rightarrow> nat option" where
  "digit_value c = (if c \<in> set ''0123456789'' then Some (of_char c - 48) else None)"

fun nat_of_digits :: "nat \<Rightarrow> string \<Rightarrow> nat option" where
  "nat_of_digits acc [] = Some acc"
| "nat_of_digits acc (c # cs) =
     (case digit_value c of None \<Rightarrow> None | Some d \<Rightarrow> nat_of_digits (10 * acc + d) cs)"

definition nat_of_string :: "string \<Rightarrow> nat option" where
  "nat_of_string s = (if s = [] then None else nat_of_digits 0 s)"

text \<open>
  \<open>ORDER BY key DESC\<close>: a descending sort, \<open>NULL\<close> (\<open>None\<close>, the least value of an
  option type) last. SQL leaves the order of rows with equal keys open; the model keeps
  them in the order in which the rows were produced.
\<close>

fun insert_desc :: "('a \<Rightarrow> 'k::linorder) \<Rightarrow> 'a \<Rightarrow> 'a list \<Rightarrow> 'a list" where
  "insert_desc key x [] = [x]"
| "insert_desc key x (y # ys) =
     (if key y \<le> key x then x # y # ys else y # insert_desc key x ys)"

definition order_by_desc :: "('a \<Rightarrow> 'k::linorder) \<Rightarrow> 'a list \<Rightarrow> 'a list" where
  "order_by_desc key rows = foldr (insert_desc key) rows []"

text \<open>
  \<^verbatim>\<open>FROM t t1 CROSS JOIN t t2 WHERE t1.patient_id < t2.patient_id\<close>: the rows of the join
  that pass the first conjunct of the \<open>WHERE\<close> clause.
\<close>

definition cross_join_lt :: "patient list \<Rightarrow> (patient \<times> patient) list" where
  "cross_join_lt tbl = [(t1, t2). t1 \<leftarrow> tbl, t2 \<leftarrow> tbl, patient_id t1 < patient_id t2]"

text \<open>The connector's exception for a table that the warehouse does not have.\<close>

definition table_not_found :: "string \<Rightarrow> exn" where
  "table_not_found table_ref = ''TABLE_OR_VIEW_NOT_FOUND: '' @ table_ref"

section \<open>The statements of the query functions\<close>

subsection \<open>\<open>fetch_patient_data\<close>\<close>

definition patient_query :: "patient list \<Rightarrow> patient list" where
  "patient_query tbl = sort_key patient_id tbl"

subsection \<open>\<open>fetch_quality_data\<close>\<close>

definition quality_prompt :: "engine \<Rightarrow> patient \<Rightarrow> string option" where
  "quality_prompt eng t =
     sql_concat
       [Some ''Analyze Australian healthcare record quality. Return quality_score (0-100), completeness (0-1), issues (array of strings). '',
        Some ''Record: '',
        to_json eng
          [(''medical_record_num'', medical_record_num t), (''patient_name'', patient_name t),
           (''date_of_birth'', date_of_birth t), (''medicare_number'', medicare_number t),
           (''phone'', phone t), (''email'', email t),
           (''private_health_fund'', private_health_fund t)]]"

text \<open>
  One row of the result with its sort key, \<^verbatim>\<open>CAST(get_json_object(quality_assessment,
  '$.quality_score') AS INT)\<close>; the row fails if the call of the model or the cast does.
\<close>

definition patient_quality ::
  "engine \<Rightarrow> string \<Rightarrow> patient \<Rightarrow> exn + quality_row \<times> int option" where
  "patient_quality eng model_name t =
     and_then (ai_query eng model_name (quality_prompt eng t) QualityFormat)
       (\<lambda>quality_assessment.
          let row =
            \<lparr>q_patient_id = patient_id t, q_patient_name = patient_name t,
             q_source_system = source_system t,
             quality_score = get_json_object eng quality_assessment ''$.quality_score'',
             completeness = get_json_object eng quality_assessment ''$.completeness'',
             issues = get_json_object eng quality_assessment ''$.issues''\<rparr>
          in and_then (cast_int eng (quality_score row)) (\<lambda>score. Inr (row, score)))"

definition quality_query :: "engine \<Rightarrow> string \<Rightarrow> patient list \<Rightarrow> exn + quality_row list" where
  "quality_query eng model_name tbl =
     and_then (try_all (map (patient_quality eng model_name) tbl))
       (\<lambda>scored. Inr (map fst (order_by_desc snd scored)))"

subsection \<open>\<open>fetch_duplicate_data\<close>\<close>

definition similarity_prompt :: "patient \<Rightarrow> patient \<Rightarrow> string option" where
  "similarity_prompt t1 t2 =
     sql_concat
       [Some ''Compare these two Australian patient records and determine if they represent the same person. '',
        Some ''Return similarity_score (0-1), is_match (boolean), confidence (low/medium/high), match_reason. '',
        Some ''Patient 1: {name: '', patient_name t1, Some '', dob: '', date_of_birth t1,
        Some '', medicare: '', medicare_number t1, Some ''}. '',
        Some ''Patient 2: {name: '', patient_name t2, Some '', dob: '', date_of_birth t2,
        Some '', medicare: '', medicare_number t2, Some ''}.'']"

text \<open>
  One row of the join with the number that the \<open>WHERE\<close> clause compares,
  \<^verbatim>\<open>get_json_object(similarity_result, '$.similarity_score') > 0.5\<close>: the extracted text is
  cast for the comparison; the row fails if the call of the model or the cast does.
\<close>

definition pairwise_similarity ::
  "engine \<Rightarrow> string \<Rightarrow> patient \<times> patient \<Rightarrow> exn + pair_row \<times> rat option" where
  "pairwise_similarity eng model_name p =
     (case p of (t1, t2) \<Rightarrow>
        and_then (ai_query eng model_name (similarity_prompt t1 t2) SimilarityFormat)
          (\<lambda>similarity_result.
             let row =
               \<lparr>id1 = patient_id t1, id2 = patient_id t2,
                name1 = patient_name t1, name2 = patient_name t2,
                system1 = source_system t1, system2 = source_system t2,
                similarity_score = get_json_object eng similarity_result ''$.similarity_score'',
                is_match = get_json_object eng similarity_result ''$.is_match'',
                confidence = get_json_object eng similarity_result ''$.confidence'',
                match_reason = get_json_object eng similarity_result ''$.match_reason''\<rparr>
             in and_then (cast_double eng (similarity_score row)) (\<lambda>score. Inr (row, score))))"

text \<open>\<^verbatim>\<open>... > 0.5\<close>: a row whose score is \<open>NULL\<close> is dropped.\<close>

definition above_half :: "rat option \<Rightarrow> bool" where
  "above_half score = (case score of None \<Rightarrow> False | Some v \<Rightarrow> 1 / 2 < v)"

text \<open>
  \<^verbatim>\<open>ORDER BY get_json_object(similarity_result, '$.similarity_score') DESC\<close>: the key is
  the extracted text itself, so the rows are ordered as strings (the statement of
  \<open>fetch_quality_data\<close> casts its key; this one does not, and the frame's column is cast
  with \<open>astype(float)\<close> only when it is displayed).
\<close>

definition duplicate_query :: "engine \<Rightarrow> string \<Rightarrow> patient list \<Rightarrow> exn + pair_row list" where
  "duplicate_query eng model_name tbl =
     and_then (try_all (map (pairwise_similarity eng model_name) (cross_join_lt tbl)))
       (\<lambda>scored.
          Inr (order_by_desc similarity_score
                 (map fst (filter (\<lambda>row_score. above_half (snd row_score)) scored))))"

subsection \<open>\<open>fetch_golden_records\<close>\<close>

definition created_at_of :: "golden_row \<Rightarrow> time option" where
  "created_at_of r = (case r ''created_at'' of Some (STimestamp t) \<Rightarrow> Some t | _ \<Rightarrow> None)"

definition golden_query :: "golden_row list \<Rightarrow> golden_row list" where
  "golden_query rows = order_by_desc created_at_of rows"

subsection \<open>\<open>generate_golden_records\<close>\<close>

definition golden_prompt :: "patient \<Rightarrow> patient \<Rightarrow> string option" where
  "golden_prompt t1 t2 =
     sql_concat
       [Some ''Create the best golden record from these two Australian patient records. '',
        Some ''Choose the most complete and accurate values. Return as JSON with all patient fields and confidence (0-1). '',
        Some ''Patient 1: {'',
        Some ''mrn: '', medical_record_num t1, Some '', name: '', patient_name t1,
        Some '', dob: '', date_of_birth t1,
        Some '', medicare: '', medicare_number t1, Some '', phone: '', phone t1,
        Some '', email: '', email t1,
        Some '', address: '', address t1, Some '', suburb: '', suburb t1,
        Some '', state: '', state t1, Some '', postcode: '', postcode t1,
        Some '', fund: '', private_health_fund t1, Some '', member: '', membership_number t1,
        Some '', emergency: '', emergency_contact t1,
        Some '', gp: '', gp_name t1, Some '', blood: '', blood_type t1,
        Some '', gender: '', gender t1, Some ''}. '',
        Some ''Patient 2: {'',
        Some ''mrn: '', medical_record_num t2, Some '', name: '', patient_name t2,
        Some '', dob: '', date_of_birth t2,
        Some '', medicare: '', medicare_number t2, Some '', phone: '', phone t2,
        Some '', email: '', email t2,
        Some '', address: '', address t2, Some '', suburb: '', suburb t2,
        Some '', state: '', state t2, Some '', postcode: '', postcode t2,
        Some '', fund: '', private_health_fund t2, Some '', member: '', membership_number t2,
        Some '', emergency: '', emergency_contact t2,
        Some '', gp: '', gp_name t2, Some '', blood: '', blood_type t2,
        Some '', gender: '', gender t2, Some ''}'']"

definition same_person_prompt :: "patient \<Rightarrow> patient \<Rightarrow> string option" where
  "same_person_prompt t1 t2 =
     sql_concat
       [Some ''Are these the same person? Return only true/false. Patient 1: '',
        patient_name t1, Some '' '', date_of_birth t1, Some '' '', medicare_number t1,
        Some ''. Patient 2: '',
        patient_name t2, Some '' '', date_of_birth t2, Some '' '', medicare_number t2]"

text \<open>
  The second conjunct of the \<open>WHERE\<close> clause: the answer must be the text \<open>true\<close>. The
  clause fails if the call does.
\<close>

definition same_person_answer :: "engine \<Rightarrow> string \<Rightarrow> patient \<times> patient \<Rightarrow> exn + bool" where
  "same_person_answer eng model_name p =
     (case p of (t1, t2) \<Rightarrow>
        and_then (ai_query eng model_name (same_person_prompt t1 t2) NoFormat)
          (\<lambda>answer. Inr (answer = Some ''true'')))"

definition high_confidence_matches ::
  "engine \<Rightarrow> string \<Rightarrow> patient list \<Rightarrow> exn + (patient \<times> patient) list" where
  "high_confidence_matches eng model_name tbl =
     and_then
       (try_all (map (\<lambda>p. and_then (same_person_answer eng model_name p) (\<lambda>same. Inr (p, same)))
                  (cross_join_lt tbl)))
       (\<lambda>judged. Inr (map fst (filter snd judged)))"

definition source_ids_of :: "patient \<times> patient \<Rightarrow> string option" where
  "source_ids_of p =
     (case p of (t1, t2) \<Rightarrow>
        sql_concat [Some (string_of_nat (patient_id t1)), Some '','',
                    Some (string_of_nat (patient_id t2))])"

definition sql_str :: "string option \<Rightarrow> sqlval" where
  "sql_str v = (case v of None \<Rightarrow> SNull | Some t \<Rightarrow> SStr t)"

definition sql_double :: "rat option \<Rightarrow> sqlval" where
  "sql_double v = (case v of None \<Rightarrow> SNull | Some x \<Rightarrow> SDouble x)"

text \<open>A text stored in a column of the given type; \<open>NULL\<close> is stored as it is.\<close>

definition store_as :: "engine \<Rightarrow> sqltype \<Rightarrow> string option \<Rightarrow> exn + sqlval" where
  "store_as eng ty v =
     (case v of
        None \<Rightarrow> Inr SNull
      | Some t \<Rightarrow> if ty = STRING then Inr (SStr t) else cast_literal eng ty t)"

text \<open>
  The row that the \<open>INSERT\<close> writes for one row of \<open>high_confidence_matches\<close>. The
  identity column is filled by the warehouse (\<open>ident\<close>); the three columns that the
  column list of the \<open>INSERT\<close> leaves out are \<open>NULL\<close>. The row fails if the call of the
  model or one of the two casts does.
\<close>

definition golden_insert_row ::
  "engine \<Rightarrow> string \<Rightarrow> time \<Rightarrow> nat \<Rightarrow> patient \<times> patient \<Rightarrow> exn + golden_row" where
  "golden_insert_row eng model_name now ident p =
     (case p of (t1, t2) \<Rightarrow>
        and_then (ai_query eng model_name (golden_prompt t1 t2) GoldenRecordFormat)
          (\<lambda>golden_result.
        and_then (store_as eng DATE (get_json_object eng golden_result ''$.date_of_birth''))
          (\<lambda>date_of_birth.
        and_then (cast_double eng (get_json_object eng golden_result ''$.confidence''))
          (\<lambda>confidence_score.
        let source_ids = source_ids_of (t1, t2);
            field = (\<lambda>path. sql_str (get_json_object eng golden_result path))
        in Inr (map_of
          [(''golden_record_id'', SInt ident),
           (''patient_id_cluster'', sql_str source_ids),
           (''medical_record_num'', field ''$.medical_record_num''),
           (''patient_name'', field ''$.patient_name''),
           (''date_of_birth'', date_of_birth),
           (''medicare_number'', field ''$.medicare_number''),
           (''phone'', field ''$.phone''),
           (''email'', field ''$.email''),
           (''address'', field ''$.address''),
           (''suburb'', field ''$.suburb''),
           (''state'', field ''$.state''),
           (''postcode'', field ''$.postcode''),
           (''private_health_fund'', field ''$.private_health_fund''),
           (''membership_number'', field ''$.membership_number''),
           (''emergency_contact'', field ''$.emergency_contact''),
           (''gp_name'', field ''$.gp_name''),
           (''blood_type'', field ''$.blood_type''),
           (''gender'', field ''$.gender''),
           (''confidence_score'', sql_double confidence_score),
           (''source_patient_ids'', sql_str source_ids),
           (''steward_status'', SStr ''pending''),
           (''steward_comments'', SNull),
           (''approved_by'', SNull),
           (''approved_at'', SNull),
           (''created_at'', STimestamp now),
           (''updated_at'', STimestamp now)])))))"

definition golden_insert ::
  "engine \<Rightarrow> string \<Rightarrow> time \<Rightarrow> nat \<Rightarrow> patient list \<Rightarrow> exn + golden_row list" where
  "golden_insert eng model_name now next_id tbl =
     and_then (high_confidence_matches eng model_name tbl)
       (\<lambda>matches.
          try_all (map (\<lambda>(i, p). golden_insert_row eng model_name now (next_id + i) p)
                     (enumerate 0 matches)))"

text \<open>
  \<open>fetch_source_patient_records\<close> reads the ids back with \<open>source_patient_ids.split(',')\<close>.
\<close>

fun split_on :: "'a \<Rightarrow> 'a list \<Rightarrow> 'a list list" where
  "split_on sep [] = [[]]"
| "split_on sep (c # cs) =
     (if c = sep then [] # split_on sep cs
      else (case split_on sep cs of [] \<Rightarrow> [[c]] | part # parts \<Rightarrow> (c # part) # parts))"

subsection \<open>\<open>update_golden_record_status\<close> and \<open>update_golden_record_with_steward_edits\<close>\<close>

text \<open>
  The f-strings of the two functions put the caller's \<open>status\<close>, \<open>comments\<close> and
  \<open>approved_by\<close> between quotes in the text of the statement, so what the statement means
  depends on how the warehouse reads that text. The model keeps the text and reads it the
  way SQL does: words, quoted literals (a doubled quote is a quote inside the literal, a
  backslash takes the next character as it is) and punctuation; then
  \<^verbatim>\<open>UPDATE t SET column = expression, ... WHERE column = number\<close>. Keywords and column
  names are matched as written (upper-case keywords, lower-case columns, as in the
  source) and comments are not read. An assignment to the identity column is not
  accepted, and a literal assigned to a column of another type than \<open>STRING\<close> is cast
  (\<open>cast_literal\<close>): a statement that fails changes nothing.
\<close>

datatype token = TWord string | TString string | TSym char

datatype lex_state = Between | InWord string | InString string | AfterQuote string | AfterBackslash string

definition is_space :: "char \<Rightarrow> bool" where
  "is_space c = (c \<in> set [CHR '' '', CHR 0x0A, CHR 0x09, CHR 0x0D])"

definition is_word_char :: "char \<Rightarrow> bool" where
  "is_word_char c =
     (c \<in> set ''abcdefghijklmnopqrstuvwxyzABCDEFGHIJKLMNOPQRSTUVWXYZ0123456789_.'')"

definition lex_start :: "token list \<Rightarrow> char \<Rightarrow> lex_state \<times> token list" where
  "lex_start toks c =
     (if is_space c then (Between, toks)
      else if c = CHR 0x27 then (InString [], toks)
      else if is_word_char c then (InWord [c], toks)
      else (Between, toks @ [TSym c]))"

fun lex_step :: "lex_state \<times> token list \<Rightarrow> char \<Rightarrow> lex_state \<times> token list" where
  "lex_step (Between, toks) c = lex_start toks c"
| "lex_step (InWord w, toks) c =
     (if is_word_char c then (InWord (w @ [c]), toks) else lex_start (toks @ [TWord w]) c)"
| "lex_step (InString v, toks) c =
     (if c = CHR 0x27 then (AfterQuote v, toks)
      else if c = CHR 0x5C then (AfterBackslash v, toks)
      else (InString (v @ [c]), toks))"
| "lex_step (AfterQuote v, toks) c =
     (if c = CHR 0x27 then (InString (v @ [c]), toks) else lex_start (toks @ [TString v]) c)"
| "lex_step (AfterBackslash v, toks) c = (InString (v @ [c]), toks)"

fun lex_finish :: "lex_state \<times> token list \<Rightarrow> token list option" where
  "lex_finish (Between, toks) = Some toks"
| "lex_finish (InWord w, toks) = Some (toks @ [TWord w])"
| "lex_finish (AfterQuote v, toks) = Some (toks @ [TString v])"
| "lex_finish (InString v, toks) = None"
| "lex_finish (AfterBackslash v, toks) = None"

definition sql_lex :: "string \<Rightarrow> token list option" where
  "sql_lex q = lex_finish (foldl lex_step (Between, []) q)"

text \<open>\<^verbatim>\<open>'{v}'\<close> in the f-string.\<close>

definition quoted :: "string \<Rightarrow> string" where
  "quoted v = [CHR 0x27] @ v @ [CHR 0x27]"

text \<open>The statement of \<open>update_golden_record_status\<close>.\<close>

definition update_status_query :: "string \<Rightarrow> nat \<Rightarrow> string \<Rightarrow> string \<Rightarrow> string \<Rightarrow> string" where
  "update_status_query table_ref record_id status comments approved_by =
     ''\<newline>        UPDATE '' @ table_ref @
     ''\<newline>        SET steward_status = '' @ quoted status @
     '',\<newline>            steward_comments = '' @ quoted comments @
     '',\<newline>            approved_by = '' @ quoted approved_by @
     '',\<newline>            approved_at = CURRENT_TIMESTAMP(),\<newline>            updated_at = CURRENT_TIMESTAMP()\<newline>        WHERE golden_record_id = '' @
     string_of_nat record_id @ ''\<newline>    ''"

text \<open>
  The statement of \<open>update_golden_record_with_steward_edits\<close>. \<open>updated_data\<close> is the
  dictionary in the order of its items; a value that is not \<open>None\<close> is written between
  quotes with its quotes doubled (\<^verbatim>\<open>str(value).replace("'", "''")\<close>), \<open>None\<close> as \<open>NULL\<close>.
  The other three texts are written as in \<open>update_golden_record_status\<close>.
\<close>

definition escape_quotes :: "string \<Rightarrow> string" where
  "escape_quotes v = concat (map (\<lambda>c. if c = CHR 0x27 then [CHR 0x27, CHR 0x27] else [c]) v)"

definition set_clause_of :: "string \<times> string option \<Rightarrow> string" where
  "set_clause_of item =
     (case item of (field, value) \<Rightarrow>
        (case value of
           Some v \<Rightarrow> field @ '' = '' @ quoted (escape_quotes v)
         | None \<Rightarrow> field @ '' = NULL''))"

text \<open>\<^verbatim>\<open>sep.join(parts)\<close>.\<close>

fun join_with :: "string \<Rightarrow> string list \<Rightarrow> string" where
  "join_with sep [] = []"
| "join_with sep [part] = part"
| "join_with sep (part # next_part # parts) = part @ sep @ join_with sep (next_part # parts)"

definition steward_edits_query ::
  "string \<Rightarrow> nat \<Rightarrow> (string \<times> string option) list \<Rightarrow> string \<Rightarrow> string \<Rightarrow> string \<Rightarrow> string" where
  "steward_edits_query table_ref record_id updated_data status comments approved_by =
     (let set_clauses = map set_clause_of updated_data;
          set_clause = join_with '', '' set_clauses
      in ''\<newline>        UPDATE '' @ table_ref @
         ''\<newline>        SET '' @ set_clause @
         '',\<newline>            steward_status = '' @ quoted status @
         '',\<newline>            steward_comments = '' @ quoted comments @
         '',\<newline>            approved_by = '' @ quoted approved_by @
         '',\<newline>            approved_at = CURRENT_TIMESTAMP(),\<newline>            updated_at = CURRENT_TIMESTAMP()\<newline>        WHERE golden_record_id = '' @
         string_of_nat record_id @ ''\<newline>    '')"

datatype sql_expr = ELit string | ENull | ECurrentTimestamp

record update_stmt =
  upd_table :: string
  upd_assignments :: "(string \<times> sql_expr) list"
  upd_where_column :: string
  upd_where_value :: nat

definition parse_assignment :: "token list \<Rightarrow> (string \<times> sql_expr) option" where
  "parse_assignment ts =
     (case ts of
        [TWord col, TSym e, TString v] \<Rightarrow>
          if e = CHR ''='' then Some (col, ELit v) else None
      | [TWord col, TSym e, TWord w] \<Rightarrow>
          if e = CHR ''='' \<and> w = ''NULL'' then Some (col, ENull) else None
      | [TWord col, TSym e, TWord w, TSym a, TSym b] \<Rightarrow>
          if e = CHR ''='' \<and> w = ''CURRENT_TIMESTAMP'' \<and> a = CHR ''('' \<and> b = CHR '')''
          then Some (col, ECurrentTimestamp) else None
      | _ \<Rightarrow> None)"

definition parse_where :: "token list \<Rightarrow> (string \<times> nat) option" where
  "parse_where ts =
     (case ts of
        [TWord w, TWord col, TSym e, TWord n] \<Rightarrow>
          if w = ''WHERE'' \<and> e = CHR ''='' then map_option (Pair col) (nat_of_string n) else None
      | _ \<Rightarrow> None)"

definition parse_update :: "token list \<Rightarrow> update_stmt option" where
  "parse_update ts =
     (case ts of
        TWord u # TWord tbl # TWord st # rest \<Rightarrow>
          if u = ''UPDATE'' \<and> st = ''SET'' then
            (let set_part = takeWhile (\<lambda>t. t \<noteq> TWord ''WHERE'') rest;
                 where_part = dropWhile (\<lambda>t. t \<noteq> TWord ''WHERE'') rest
             in case those (map parse_assignment (split_on (TSym CHR '','') set_part)) of
                  None \<Rightarrow> None
                | Some assignments \<Rightarrow>
                    (case parse_where where_part of
                       None \<Rightarrow> None
                     | Some (col, n) \<Rightarrow>
                         Some \<lparr>upd_table = tbl, upd_assignments = assignments,
                               upd_where_column = col, upd_where_value = n\<rparr>))
          else None
      | _ \<Rightarrow> None)"

text \<open>The columns of the golden table, from \<open>create_golden_table_if_not_exists\<close>.\<close>

definition golden_schema :: "(string \<times> sqltype) list" where
  "golden_schema =
     [(''golden_record_id'', BIGINT),
      (''patient_id_cluster'', STRING),
      (''medical_record_num'', STRING),
      (''patient_name'', STRING),
      (''date_of_birth'', DATE),
      (''medicare_number'', STRING),
      (''phone'', STRING),
      (''email'', STRING),
      (''address'', STRING),
      (''suburb'', STRING),
      (''state'', STRING),
      (''postcode'', STRING),
      (''private_health_fund'', STRING),
      (''membership_number'', STRING),
      (''emergency_contact'', STRING),
      (''gp_name'', STRING),
      (''blood_type'', STRING),
      (''gender'', STRING),
      (''confidence_score'', DOUBLE),
      (''source_patient_ids'', STRING),
      (''steward_status'', STRING),
      (''steward_comments'', STRING),
      (''approved_by'', STRING),
      (''approved_at'', TIMESTAMP),
      (''created_at'', TIMESTAMP),
      (''updated_at'', TIMESTAMP)]"

text \<open>The value that an assignment of the \<open>SET\<close> clause gives its column.\<close>

definition assignment_value ::
  "engine \<Rightarrow> time \<Rightarrow> string \<times> sql_expr \<Rightarrow> exn + string \<times> sqlval" where
  "assignment_value eng now a =
     (case a of (col, e) \<Rightarrow>
        (case map_of golden_schema col of
           None \<Rightarrow> Inl (''UNRESOLVED_COLUMN: '' @ col)
         | Some ty \<Rightarrow>
             if col = ''golden_record_id'' then Inl ''cannot update an identity column''
             else (case e of
                     ENull \<Rightarrow> Inr (col, SNull)
                   | ELit v \<Rightarrow> and_then (store_as eng ty (Some v)) (\<lambda>x. Inr (col, x))
                   | ECurrentTimestamp \<Rightarrow>
                       if ty = TIMESTAMP then Inr (col, STimestamp now)
                       else Inl (''DATATYPE_MISMATCH: '' @ col))))"

definition run_update :: "engine \<Rightarrow> update_stmt \<Rightarrow> warehouse \<Rightarrow> exn + dataframe \<times> warehouse" where
  "run_update eng u w =
     (case golden_tables w (upd_table u) of
        None \<Rightarrow> Inl (table_not_found (upd_table u))
      | Some rows \<Rightarrow>
          (case try_all (map (assignment_value eng (current_timestamp w)) (upd_assignments u)) of
             Inl e \<Rightarrow> Inl e
           | Inr vals \<Rightarrow>
               if \<not> distinct (map fst vals) then Inl ''DUPLICATE_ASSIGNMENTS in SET''
               else if map_of golden_schema (upd_where_column u) = None
               then Inl ''UNRESOLVED_COLUMN in WHERE''
               else Inr (StatementResult,
                 w\<lparr>golden_tables := (golden_tables w)(upd_table u \<mapsto>
                     map (\<lambda>r. if r (upd_where_column u) = Some (SInt (upd_where_value u))
                               then r ++ map_of vals else r) rows)\<rparr>)))"

definition run_sql_text :: "engine \<Rightarrow> string \<Rightarrow> warehouse \<Rightarrow> exn + dataframe \<times> warehouse" where
  "run_sql_text eng q w =
     (case sql_lex q of
        None \<Rightarrow> Inl ''PARSE_SYNTAX_ERROR''
      | Some toks \<Rightarrow>
          (case parse_update toks of
             None \<Rightarrow> Inl ''PARSE_SYNTAX_ERROR''
           | Some u \<Rightarrow> run_update eng u w))"

section \<open>The warehouse\<close>

text \<open>
  The statements that the app sends. Those of the query functions and of
  \<open>generate_golden_records\<close> are fixed texts but for the table references and the model name:
  each is a constructor with these as arguments, and its meaning is the function written
  from its text above. The two \<open>UPDATE\<close> statements are kept as text.
\<close>

datatype statement =
    PatientQuery string
  | QualityQuery string string
  | DuplicateQuery string string
  | GoldenQuery string
  | GoldenInsert string string string
  | SqlText string

text \<open>
  Running one statement with the given credentials (\<open>None\<close>: the service principal).
  \<open>Inl\<close> is the exception that \<open>cursor.execute\<close> or the connection raises: the warehouse
  cannot be reached, a table does not exist, or a call of the model or a cast in the
  statement fails. The warehouse is then unchanged.
\<close>

definition execute ::
  "engine \<Rightarrow> string option \<Rightarrow> statement \<Rightarrow> warehouse \<Rightarrow> exn + dataframe \<times> warehouse" where
  "execute eng cred stmt w =
     (if \<not> reachable w cred then Inl ''connection failed''
      else case stmt of
        PatientQuery table_ref \<Rightarrow>
          (case source_tables w table_ref of
             None \<Rightarrow> Inl (table_not_found table_ref)
           | Some tbl \<Rightarrow> Inr (PatientRows (patient_query tbl), w))
      | QualityQuery model_name table_ref \<Rightarrow>
          (case source_tables w table_ref of
             None \<Rightarrow> Inl (table_not_found table_ref)
           | Some tbl \<Rightarrow>
               and_then (quality_query eng model_name tbl) (\<lambda>rows. Inr (QualityRows rows, w)))
      | DuplicateQuery model_name table_ref \<Rightarrow>
          (case source_tables w table_ref of
             None \<Rightarrow> Inl (table_not_found table_ref)
           | Some tbl \<Rightarrow>
               and_then (duplicate_query eng model_name tbl) (\<lambda>rows. Inr (DuplicateRows rows, w)))
      | GoldenQuery table_ref \<Rightarrow>
          (case golden_tables w table_ref of
             None \<Rightarrow> Inl (table_not_found table_ref)
           | Some rows \<Rightarrow> Inr (GoldenRows (golden_query rows), w))
      | GoldenInsert model_name table_ref_main table_ref_golden \<Rightarrow>
          (case source_tables w table_ref_main of
             None \<Rightarrow> Inl (table_not_found table_ref_main)
           | Some tbl \<Rightarrow>
               (case golden_tables w table_ref_golden of
                  None \<Rightarrow> Inl (table_not_found table_ref_golden)
                | Some rows \<Rightarrow>
                    and_then
                      (golden_insert eng model_name (current_timestamp w) (next_identity w) tbl)
                      (\<lambda>new_rows.
                         Inr (StatementResult,
                           w\<lparr>golden_tables := (golden_tables w)(table_ref_golden \<mapsto> rows @ new_rows),
                             next_identity := next_identity w + length new_rows\<rparr>))))
      | SqlText q \<Rightarrow> run_sql_text eng q w)"

section \<open>The Python functions that send the statements\<close>

text \<open>
  Both connectors catch every exception, report it with \<open>st.error\<close> and return the demo
  patients instead, whatever the statement was: they never raise.
\<close>

definition sql_query_with_service_principal ::
  "engine \<Rightarrow> statement \<Rightarrow> app \<Rightarrow> dataframe \<times> app" where
  "sql_query_with_service_principal eng query s =
     (case execute eng None query (wh s) of
        Inl e \<Rightarrow> (generate_demo_data, st_error s (''Database connection error: '' @ e))
      | Inr (df, w) \<Rightarrow> (df, s\<lparr>wh := w\<rparr>))"

definition sql_query_with_user_token ::
  "engine \<Rightarrow> statement \<Rightarrow> string \<Rightarrow> app \<Rightarrow> dataframe \<times> app" where
  "sql_query_with_user_token eng query user_token s =
     (case execute eng (Some user_token) query (wh s) of
        Inl e \<Rightarrow> (generate_demo_data, st_error s (''Database connection error: '' @ e))
      | Inr (df, w) \<Rightarrow> (df, s\<lparr>wh := w\<rparr>))"

text \<open>
  \<^verbatim>\<open>if user_token: ... else: ...\<close>, with Python's truth value of an optional string.
\<close>

definition run_query :: "engine \<Rightarrow> statement \<Rightarrow> string option \<Rightarrow> app \<Rightarrow> dataframe \<times> app" where
  "run_query eng query user_token s =
     (case user_token of
        None \<Rightarrow> sql_query_with_service_principal eng query s
      | Some t \<Rightarrow>
          if t \<noteq> [] then sql_query_with_user_token eng query t s
          else sql_query_with_service_principal eng query s)"

text \<open>
  The decorated functions: \<open>f_func\<close> is the body of \<open>f\<close>, and \<open>f\<close> is what the name is bound
  to after \<^verbatim>\<open>@async_query_wrapper\<close>. No body raises, since the connectors do not; the
  \<open>try\<close> of \<open>fetch_golden_records\<close> around its connector call has nothing to catch.
\<close>

definition fetch_patient_data_func :: "engine \<Rightarrow> string option \<Rightarrow> app \<Rightarrow> (exn + dataframe) \<times> app" where
  "fetch_patient_data_func eng user_token s =
     (let table_ref = get_table_reference s ''main'';
          query = PatientQuery table_ref
      in case run_query eng query user_token s of (df, s') \<Rightarrow> (Inr df, s'))"

definition fetch_patient_data :: "engine \<Rightarrow> string option \<Rightarrow> app \<Rightarrow> (exn + dataframe) \<times> app" where
  "fetch_patient_data eng user_token =
     async_query_wrapper ''fetch_patient_data'' (fetch_patient_data_func eng user_token)"

definition fetch_quality_data_func :: "engine \<Rightarrow> string option \<Rightarrow> app \<Rightarrow> (exn + dataframe) \<times> app" where
  "fetch_quality_data_func eng user_token s =
     (let table_ref = get_table_reference s ''main'';
          model_name = get_ai_model_name s;
          query = QualityQuery model_name table_ref
      in case run_query eng query user_token s of (df, s') \<Rightarrow> (Inr df, s'))"

definition fetch_quality_data :: "engine \<Rightarrow> string option \<Rightarrow> app \<Rightarrow> (exn + dataframe) \<times> app" where
  "fetch_quality_data eng user_token =
     async_query_wrapper ''fetch_quality_data'' (fetch_quality_data_func eng user_token)"

definition fetch_duplicate_data_func :: "engine \<Rightarrow> string option \<Rightarrow> app \<Rightarrow> (exn + dataframe) \<times> app" where
  "fetch_duplicate_data_func eng user_token s =
     (let table_ref = get_table_reference s ''main'';
          model_name = get_ai_model_name s;
          query = DuplicateQuery model_name table_ref
      in case run_query eng query user_token s of (df, s') \<Rightarrow> (Inr df, s'))"

definition fetch_duplicate_data :: "engine \<Rightarrow> string option \<Rightarrow> app \<Rightarrow> (exn + dataframe) \<times> app" where
  "fetch_duplicate_data eng user_token =
     async_query_wrapper ''fetch_duplicate_data'' (fetch_duplicate_data_func eng user_token)"

definition fetch_golden_records_func :: "engine \<Rightarrow> string option \<Rightarrow> app \<Rightarrow> (exn + dataframe) \<times> app" where
  "fetch_golden_records_func eng user_token s =
     (let table_ref = get_table_reference s ''golden'';
          query = GoldenQuery table_ref
      in case run_query eng query user_token s of (df, s') \<Rightarrow> (Inr df, s'))"

definition fetch_golden_records :: "engine \<Rightarrow> string option \<Rightarrow> app \<Rightarrow> (exn + dataframe) \<times> app" where
  "fetch_golden_records eng user_token =
     async_query_wrapper ''fetch_golden_records'' (fetch_golden_records_func eng user_token)"

text \<open>
  \<open>generate_golden_records\<close> returns \<open>True\<close> unless the connector raises, which it never
  does.
\<close>

definition generate_golden_records :: "engine \<Rightarrow> string option \<Rightarrow> app \<Rightarrow> bool \<times> app" where
  "generate_golden_records eng user_token s =
     (let table_ref_main = get_table_reference s ''main'';
          table_ref_golden = get_table_reference s ''golden'';
          model_name = get_ai_model_name s;
          query = GoldenInsert model_name table_ref_main table_ref_golden
      in case run_query eng query user_token s of (df, s') \<Rightarrow> (True, s'))"

text \<open>
  \<open>update_golden_record_status\<close>. Its \<open>except\<close> branch is never taken, for the same
  reason: the function returns \<open>True\<close> whatever the warehouse did with the statement.
\<close>

definition update_golden_record_status ::
  "engine \<Rightarrow> nat \<Rightarrow> string \<Rightarrow> string \<Rightarrow> string \<Rightarrow> string option \<Rightarrow> app \<Rightarrow> bool \<times> app" where
  "update_golden_record_status eng record_id status comments approved_by user_token s =
     (let table_ref = get_table_reference s ''golden'';
          query = SqlText (update_status_query table_ref record_id status comments approved_by)
      in case run_query eng query user_token s of (df, s') \<Rightarrow> (True, s'))"

text \<open>
  \<open>update_golden_record_with_steward_edits\<close>, with the same \<open>try\<close> around the connector.
\<close>

definition update_golden_record_with_steward_edits ::
  "engine \<Rightarrow> nat \<Rightarrow> (string \<times> string option) list \<Rightarrow> string \<Rightarrow> string \<Rightarrow> string \<Rightarrow>
     string option \<Rightarrow> app \<Rightarrow> bool \<times> app" where
  "update_golden_record_with_steward_edits eng record_id updated_data status comments approved_by
     user_token s =
     (let table_ref = get_table_reference s ''golden'';
          query = SqlText (steward_edits_query table_ref record_id updated_data status comments
                             approved_by)
      in case run_query eng query user_token s of (df, s') \<Rightarrow> (True, s'))"

text \<open>
  The keys of \<open>field_mapping\<close> in \<open>show_enhanced_stewardship_interface\<close>, and the dictionary
  \<open>updated_golden_record\<close> that the interface builds from the sixteen text areas:
  \<^verbatim>\<open>updated_golden_record[field_key] = edited_value if edited_value else None\<close>, where
  \<open>edited_value\<close> gives the text of the area of a field.
\<close>

definition field_keys :: "string list" where
  "field_keys =
     [''medical_record_num'', ''patient_name'', ''date_of_birth'', ''medicare_number'',
      ''phone'', ''email'', ''address'', ''suburb'', ''state'', ''postcode'',
      ''private_health_fund'', ''membership_number'', ''emergency_contact'', ''gp_name'',
      ''blood_type'', ''gender'']"

definition updated_golden_record :: "(string \<Rightarrow> string) \<Rightarrow> (string \<times> string option) list" where
  "updated_golden_record edited_value =
     map (\<lambda>field_key.
            (field_key, if edited_value field_key \<noteq> [] then Some (edited_value field_key) else None))
       field_keys"

text \<open>
  The body of \<^verbatim>\<open>if st.button("Approve Golden Record", ...)\<close> in
  \<open>show_enhanced_stewardship_interface\<close>, for the golden record with the given id;
  \<^verbatim>\<open>comments or 'Approved with steward edits'\<close> is the default for empty comments.
  Messages and widget keys are treated as for the reject button below.
\<close>

definition approve_button ::
  "engine \<Rightarrow> nat \<Rightarrow> (string \<Rightarrow> string) \<Rightarrow> string \<Rightarrow> string \<Rightarrow> string option \<Rightarrow> app \<Rightarrow> app" where
  "approve_button eng golden_record_id edited_value comments steward_name user_token s =
     (case update_golden_record_with_steward_edits eng golden_record_id
             (updated_golden_record edited_value) ''approved''
             (if comments \<noteq> [] then comments else ''Approved with steward edits'')
             steward_name user_token s of
        (success, s1) \<Rightarrow>
          if success then st_success s1 ''Golden record approved with your edits!''
          else st_error s1 ''Failed to approve record. Please try again.'')"

text \<open>
  The body of \<^verbatim>\<open>if st.button("Reject Record", ...)\<close> in
  \<open>show_enhanced_stewardship_interface\<close>, for the golden record with the given id. The
  messages are the source's without their emoji; the widget keys that the source deletes
  before \<open>st.rerun()\<close> are not part of \<open>app\<close>.
\<close>

definition reject_button ::
  "engine \<Rightarrow> nat \<Rightarrow> string \<Rightarrow> string \<Rightarrow> string option \<Rightarrow> app \<Rightarrow> app" where
  "reject_button eng golden_record_id comments steward_name user_token s =
     (if comments \<noteq> [] then
        (case update_golden_record_status eng golden_record_id ''rejected'' comments
                steward_name user_token s of
           (success, s1) \<Rightarrow>
             if success then st_success s1 ''Record rejected!''
             else st_error s1 ''Failed to reject record. Please try again.'')
      else st_error s ''Please provide comments when rejecting a record.'')"

section \<open>Notions used to state the properties\<close>

text \<open>The credentials that \<open>run_query\<close> connects with.\<close>

definition credentials_of :: "string option \<Rightarrow> string option" where
  "credentials_of user_token =
     (case user_token of None \<Rightarrow> None | Some t \<Rightarrow> if t \<noteq> [] then Some t else None)"

text \<open>The frame that \<open>async_query_wrapper\<close> returns when the decorated function raises.\<close>

definition fallback_frame :: "string \<Rightarrow> dataframe" where
  "fallback_frame func_name =
     (if str_contains ''patient'' func_name then generate_demo_data
      else if str_contains ''quality'' func_name then generate_demo_quality_data
      else EmptyFrame)"

text \<open>The rows of a frame of quality assessments or of duplicate pairs; no rows for any other frame.\<close>

definition quality_rows_of :: "exn + dataframe \<Rightarrow> quality_row list" where
  "quality_rows_of result = (case result of Inr (QualityRows rows) \<Rightarrow> rows | _ \<Rightarrow> [])"

definition duplicate_rows_of :: "exn + dataframe \<Rightarrow> pair_row list" where
  "duplicate_rows_of result = (case result of Inr (DuplicateRows rows) \<Rightarrow> rows | _ \<Rightarrow> [])"

text \<open>
  The quality score of a row as the number that the statement sorts by, and the
  similarity score of a pair as the number that the statement compares with 0.5; the row
  has none (\<open>None\<close>) when the score is \<open>NULL\<close> or its cast fails.
\<close>

definition quality_number :: "engine \<Rightarrow> quality_row \<Rightarrow> int option" where
  "quality_number eng r = (case cast_int eng (quality_score r) of Inr score \<Rightarrow> score | Inl e \<Rightarrow> None)"

definition score_number :: "engine \<Rightarrow> pair_row \<Rightarrow> rat option" where
  "score_number eng r =
     (case cast_double eng (similarity_score r) of Inr score \<Rightarrow> score | Inl e \<Rightarrow> None)"

text \<open>
  The scores of the rows compare as texts the way they compare as numbers: whenever the
  text of one row is at most the text of another, so is its number.
\<close>

definition text_order_agrees :: "engine \<Rightarrow> pair_row list \<Rightarrow> bool" where
  "text_order_agrees eng rows =
     list_all (\<lambda>a. list_all (\<lambda>b. similarity_score a \<le> similarity_score b \<longrightarrow>
                                  score_number eng a \<le> score_number eng b) rows) rows"

text \<open>
  The order that the specification asks of the duplicate pairs: descending by
  \<open>similarity_score\<close>, ties broken by \<open>(id1, id2)\<close> ascending.
\<close>

definition id_tie_break_order :: "engine \<Rightarrow> pair_row \<Rightarrow> pair_row \<Rightarrow> bool" where
  "id_tie_break_order eng a b =
     (score_number eng b < score_number eng a \<or>
      (score_number eng a = score_number eng b \<and>
       (id1 a < id1 b \<or> (id1 a = id1 b \<and> id2 a \<le> id2 b))))"

definition pair_summary :: "pair_row \<Rightarrow> nat \<times> nat \<times> string option" where
  "pair_summary r = (id1 r, id2 r, similarity_score r)"


text \<open>
  A text that the lexer of the warehouse reads as one literal when the f-string puts it
  between quotes: it has neither a quote nor a backslash. A text whose quotes are doubled
  first only has to be free of backslashes.
\<close>

definition sql_literal_safe :: "string \<Rightarrow> bool" where
  "sql_literal_safe v = list_all (\<lambda>c. c \<noteq> CHR 0x27 \<and> c \<noteq> CHR 0x5C) v"

definition backslash_free :: "string \<Rightarrow> bool" where
  "backslash_free v = list_all (\<lambda>c. c \<noteq> CHR 0x5C) v"

text \<open>The tokens of the statement of \<open>update_golden_record_status\<close>, as the source means it.\<close>

definition status_update_tokens :: "string \<Rightarrow> nat \<Rightarrow> string \<Rightarrow> string \<Rightarrow> string \<Rightarrow> token list" where
  "status_update_tokens table_ref record_id status comments approved_by =
     [TWord ''UPDATE'', TWord table_ref, TWord ''SET'',
      TWord ''steward_status'', TSym CHR ''='', TString status, TSym CHR '','',
      TWord ''steward_comments'', TSym CHR ''='', TString comments, TSym CHR '','',
      TWord ''approved_by'', TSym CHR ''='', TString approved_by, TSym CHR '','',
      TWord ''approved_at'', TSym CHR ''='', TWord ''CURRENT_TIMESTAMP'', TSym CHR ''('', TSym CHR '')'',
      TSym CHR '','',
      TWord ''updated_at'', TSym CHR ''='', TWord ''CURRENT_TIMESTAMP'', TSym CHR ''('', TSym CHR '')'',
      TWord ''WHERE'', TWord ''golden_record_id'', TSym CHR ''='', TWord (string_of_nat record_id)]"

text \<open>
  The five assignments of that statement, applied to a row of the golden table: what
  \<^verbatim>\<open>UPDATE ... SET steward_status = ..., steward_comments = ..., approved_by = ...,
  approved_at = CURRENT_TIMESTAMP(), updated_at = CURRENT_TIMESTAMP() WHERE golden_record_id = ...\<close>
  does when the three texts are data.
\<close>

definition set_steward_columns ::
  "nat \<Rightarrow> string \<Rightarrow> string \<Rightarrow> string \<Rightarrow> time \<Rightarrow> golden_row \<Rightarrow> golden_row" where
  "set_steward_columns record_id status comments approved_by now r =
     (if r ''golden_record_id'' = Some (SInt record_id)
      then r(''steward_status'' \<mapsto> SStr status,
             ''steward_comments'' \<mapsto> SStr comments,
             ''approved_by'' \<mapsto> SStr approved_by,
             ''approved_at'' \<mapsto> STimestamp now,
             ''updated_at'' \<mapsto> STimestamp now)
      else r)"

text \<open>
  The tokens and the expression of one item of \<open>updated_data\<close> in the statement of
  \<open>update_golden_record_with_steward_edits\<close>, and the value that the item gives its column.
\<close>

definition item_tokens :: "string \<times> string option \<Rightarrow> token list" where
  "item_tokens item =
     (case item of (field, value) \<Rightarrow>
        [TWord field, TSym CHR ''='',
         (case value of Some v \<Rightarrow> TString v | None \<Rightarrow> TWord ''NULL'')])"

definition item_expr :: "string \<times> string option \<Rightarrow> string \<times> sql_expr" where
  "item_expr item =
     (case item of (field, value) \<Rightarrow>
        (field, case value of Some v \<Rightarrow> ELit v | None \<Rightarrow> ENull))"

text \<open>
  An item that the warehouse reads as one assignment: its field is a word other than
  \<open>WHERE\<close>, and its value, whose quotes the function doubles, has no backslash.
\<close>

definition item_readable :: "string \<times> string option \<Rightarrow> bool" where
  "item_readable item =
     (case item of (field, value) \<Rightarrow>
        field \<noteq> [] \<and> list_all is_word_char field \<and> field \<noteq> ''WHERE'' \<and>
        (case value of Some v \<Rightarrow> backslash_free v | None \<Rightarrow> True))"

text \<open>
  The tokens of the statement of \<open>update_golden_record_with_steward_edits\<close>, as the
  source means it.
\<close>

definition steward_edits_tokens ::
  "string \<Rightarrow> nat \<Rightarrow> (string \<times> string option) list \<Rightarrow> string \<Rightarrow> string \<Rightarrow> string \<Rightarrow> token list" where
  "steward_edits_tokens table_ref record_id updated_data status comments approved_by =
     [TWord ''UPDATE'', TWord table_ref, TWord ''SET''] @
     concat (map (\<lambda>item. item_tokens item @ [TSym CHR '','']) updated_data) @
     [TWord ''steward_status'', TSym CHR ''='', TString status, TSym CHR '','',
      TWord ''steward_comments'', TSym CHR ''='', TString comments, TSym CHR '','',
      TWord ''approved_by'', TSym CHR ''='', TString approved_by, TSym CHR '','',
      TWord ''approved_at'', TSym CHR ''='', TWord ''CURRENT_TIMESTAMP'', TSym CHR ''('', TSym CHR '')'',
      TSym CHR '','',
      TWord ''updated_at'', TSym CHR ''='', TWord ''CURRENT_TIMESTAMP'', TSym CHR ''('', TSym CHR '')'',
      TWord ''WHERE'', TWord ''golden_record_id'', TSym CHR ''='', TWord (string_of_nat record_id)]"

text \<open>The five stewardship assignments of both statements and their values.\<close>

definition steward_assignments :: "string \<Rightarrow> string \<Rightarrow> string \<Rightarrow> (string \<times> sql_expr) list" where
  "steward_assignments status comments approved_by =
     [(''steward_status'', ELit status), (''steward_comments'', ELit comments),
      (''approved_by'', ELit approved_by), (''approved_at'', ECurrentTimestamp),
      (''updated_at'', ECurrentTimestamp)]"

definition steward_values :: "string \<Rightarrow> string \<Rightarrow> string \<Rightarrow> time \<Rightarrow> (string \<times> sqlval) list" where
  "steward_values status comments approved_by now =
     [(''steward_status'', SStr status), (''steward_comments'', SStr comments),
      (''approved_by'', SStr approved_by), (''approved_at'', STimestamp now),
      (''updated_at'', STimestamp now)]"

text \<open>
  The assignments of \<open>updated_data\<close>, applied to a row of the golden table: every item
  sets its column to its text (cast to the type of the column, a date for
  \<open>date_of_birth\<close>) or to \<open>NULL\<close>. \<open>vals\<close> are the values of the items.
\<close>

definition set_edited_columns :: "nat \<Rightarrow> (string \<times> sqlval) list \<Rightarrow> golden_row \<Rightarrow> golden_row" where
  "set_edited_columns record_id vals r =
     (if r ''golden_record_id'' = Some (SInt record_id) then r ++ map_of vals else r)"

text \<open>
  The two decisions of the stewardship interface: the approve button with the texts of
  the sixteen areas and the comments, and the reject button with the comments.
\<close>

datatype decision = Approve "string \<Rightarrow> string" string | Reject string

definition press_button ::
  "engine \<Rightarrow> nat \<Rightarrow> decision \<Rightarrow> string \<Rightarrow> string option \<Rightarrow> app \<Rightarrow> app" where
  "press_button eng golden_record_id d steward_name user_token s =
     (case d of
        Approve edited_value comments \<Rightarrow>
          approve_button eng golden_record_id edited_value comments steward_name user_token s
      | Reject comments \<Rightarrow>
          reject_button eng golden_record_id comments steward_name user_token s)"

definition decision_status :: "decision \<Rightarrow> string" where
  "decision_status d = (case d of Approve edited_value comments \<Rightarrow> ''approved'' | Reject comments \<Rightarrow> ''rejected'')"

definition decision_comments :: "decision \<Rightarrow> string" where
  "decision_comments d =
     (case d of
        Approve edited_value comments \<Rightarrow>
          if comments \<noteq> [] then comments else ''Approved with steward edits''
      | Reject comments \<Rightarrow> comments)"

definition decision_message :: "decision \<Rightarrow> string" where
  "decision_message d =
     (case d of
        Approve edited_value comments \<Rightarrow> ''Golden record approved with your edits!''
      | Reject comments \<Rightarrow> ''Record rejected!'')"

text \<open>
  The value that the approve button writes to the column of a field: \<open>NULL\<close> for an empty
  area, the date that the text of \<open>date_of_birth\<close> is cast to, the text itself otherwise.
\<close>

definition edited_column :: "engine \<Rightarrow> (string \<Rightarrow> string) \<Rightarrow> string \<Rightarrow> string \<times> sqlval" where
  "edited_column eng edited_value field_key =
     (field_key,
      if edited_value field_key = [] then SNull
      else if field_key = ''date_of_birth''
      then (case cast_literal eng DATE (edited_value field_key) of Inr d \<Rightarrow> d | Inl e \<Rightarrow> SNull)
      else SStr (edited_value field_key))"

text \<open>What a decision on the record with the given id does to a row of the golden table.\<close>

definition decision_effect ::
  "engine \<Rightarrow> nat \<Rightarrow> decision \<Rightarrow> string \<Rightarrow> time \<Rightarrow> golden_row \<Rightarrow> golden_row" where
  "decision_effect eng record_id d steward_name now r =
     set_steward_columns record_id (decision_status d) (decision_comments d) steward_name now
       (case d of
          Approve edited_value comments \<Rightarrow>
            set_edited_columns record_id (map (edited_column eng edited_value) field_keys) r
        | Reject comments \<Rightarrow> r)"

text \<open>
  The decisions whose statement the warehouse reads as the source means it: the
  comments have neither quote nor backslash (and a reject has comments), the texts of the
  areas have no backslash, and the text of \<open>date_of_birth\<close>, if any, denotes a date.
\<close>

definition decision_readable :: "engine \<Rightarrow> decision \<Rightarrow> bool" where
  "decision_readable eng d =
     (case d of
        Approve edited_value comments \<Rightarrow>
          sql_literal_safe comments \<and>
          list_all (\<lambda>field_key. backslash_free (edited_value field_key)) field_keys \<and>
          (edited_value ''date_of_birth'' = [] \<or>
           (case cast_literal eng DATE (edited_value ''date_of_birth'') of
              Inr d \<Rightarrow> True | Inl e \<Rightarrow> False))
      | Reject comments \<Rightarrow> comments \<noteq> [] \<and> sql_literal_safe comments)"

text \<open>A column of a golden table of the app's warehouse, row by row.\<close>

definition golden_column :: "app \<Rightarrow> string \<Rightarrow> string \<Rightarrow> sqlval option list" where
  "golden_column s table_ref col =
     (case golden_tables (wh s) table_ref of None \<Rightarrow> [] | Some rows \<Rightarrow> map (\<lambda>r. r col) rows)"

section \<open>Example inputs\<close>

text \<open>
  A small source table, a warehouse that holds it under the default configuration of
  the app, and a scoring service that answers from the prompt alone: a pair is 0.6
  similar if one of the two is a Doe and 0.9 otherwise, a record of a Smith has quality 50
  and any other 90, and two records are the same person unless one of them is a Doe.
\<close>

definition example_patient :: "nat \<Rightarrow> string \<Rightarrow> string \<Rightarrow> patient" where
  "example_patient i name medicare =
     \<lparr>patient_id = i, medical_record_num = None,
      patient_name = Some name, date_of_birth = Some ''1980-01-01'',
      medicare_number = Some medicare, phone = None, email = None, address = None,
      suburb = Some ''Melbourne'', state = Some ''VIC'', postcode = Some ''3000'',
      private_health_fund = Some ''Medibank'', membership_number = None,
      emergency_contact = None, gp_name = None, blood_type = Some ''O+'',
      gender = Some ''M'', source_system = Some ''EMR_System_A''\<rparr>"

definition example_patients :: "patient list" where
  "example_patients =
     [example_patient 3 ''Jane Doe'' ''2987 6543 2109 8'',
      example_patient 2 ''J. Smith'' ''2428912345678'',
      example_patient 1 ''John Smith'' ''2428 9123 4567 8'']"

definition example_patients_by_id :: "patient list" where
  "example_patients_by_id =
     [example_patient 1 ''John Smith'' ''2428 9123 4567 8'',
      example_patient 2 ''J. Smith'' ''2428912345678'',
      example_patient 3 ''Jane Doe'' ''2987 6543 2109 8'']"

text \<open>A source table in which two rows have the patient id 1.\<close>

definition example_patients_same_id :: "patient list" where
  "example_patients_same_id =
     [example_patient 1 ''John Smith'' ''2428 9123 4567 8'',
      example_patient 1 ''Jon Smith'' ''2428 9123 4567 8'',
      example_patient 2 ''J. Smith'' ''2428912345678'']"

definition example_oracle ::
  "string \<Rightarrow> string option \<Rightarrow> response_format \<Rightarrow> exn + string option" where
  "example_oracle model_name prompt fmt =
     (case prompt of
        None \<Rightarrow> Inr None
      | Some p \<Rightarrow>
          (case fmt of
             NoFormat \<Rightarrow> Inr (Some (if str_contains ''Doe'' p then ''false'' else ''true''))
           | QualityFormat \<Rightarrow> Inr (Some (if str_contains ''Smith'' p then ''50'' else ''90''))
           | SimilarityFormat \<Rightarrow> Inr (Some (if str_contains ''Doe'' p then ''0.6'' else ''0.9''))
           | GoldenRecordFormat \<Rightarrow> Inr (Some ''merged'')))"

definition example_engine :: engine where
  "example_engine =
     \<lparr>ai_query = example_oracle,
      to_json = (\<lambda>fields. Some (concat (map (\<lambda>(k, v). case v of None \<Rightarrow> [] | Some t \<Rightarrow> t @ '';'') fields))),
      get_json_object =
        (\<lambda>response path.
           if response = Some ''merged'' \<and> path = ''$.confidence'' then Some ''0.9''
           else if response = Some ''merged'' \<and> path = ''$.date_of_birth'' then Some ''1980-01-01''
           else response),
      cast_double =
        (\<lambda>v. if v = None then Inr None
             else if v = Some ''0.9'' then Inr (Some (9 / 10))
             else if v = Some ''0.6'' then Inr (Some (3 / 5))
             else if v = Some ''5.5e-1'' then Inr (Some (11 / 20))
             else Inl ''CAST_INVALID_INPUT''),
      cast_int =
        (\<lambda>v. if v = None then Inr None
             else if v = Some ''50'' then Inr (Some 50)
             else if v = Some ''90'' then Inr (Some 90)
             else Inl ''CAST_INVALID_INPUT''),
      cast_literal =
        (\<lambda>ty v. if ty = DATE \<and> length v = 10 then Inr (SDate v) else Inl ''CAST_INVALID_INPUT'')\<rparr>"

text \<open>
  The same service when the model endpoint is down, when it fails on the merge prompt
  only, and when it writes the similarity of a pair with a Doe as \<open>5.5e-1\<close>.
\<close>

definition example_engine_down :: engine where
  "example_engine_down =
     example_engine\<lparr>ai_query := (\<lambda>model_name prompt fmt. Inl ''model endpoint unavailable'')\<rparr>"


definition example_engine_exponent :: engine where
  "example_engine_exponent =
     example_engine\<lparr>ai_query := (\<lambda>model_name prompt fmt.
        if fmt = SimilarityFormat \<and> example_oracle model_name prompt fmt = Inr (Some ''0.6'')
        then Inr (Some ''5.5e-1'')
        else example_oracle model_name prompt fmt)\<rparr>"

text \<open>The rows that this service makes of a record and of a pair.\<close>

definition example_assessment :: "nat \<Rightarrow> string \<Rightarrow> string \<Rightarrow> quality_row" where
  "example_assessment i name score =
     \<lparr>q_patient_id = i, q_patient_name = Some name, q_source_system = Some ''EMR_System_A'',
      quality_score = Some score, completeness = Some score, issues = Some score\<rparr>"

definition example_pair :: "nat \<Rightarrow> string \<Rightarrow> nat \<Rightarrow> string \<Rightarrow> string \<Rightarrow> pair_row" where
  "example_pair i name_i j name_j score =
     \<lparr>id1 = i, id2 = j, name1 = Some name_i, name2 = Some name_j,
      system1 = Some ''EMR_System_A'', system2 = Some ''EMR_System_A'',
      similarity_score = Some score, is_match = Some score, confidence = Some score,
      match_reason = Some score\<rparr>"

definition example_config :: db_config where
  "example_config =
     \<lparr>catalog_name = ''danny_catalog'', schema_name = ''healthcare_mdm_schema'',
      table_name = ''patients'', golden_table_name = ''patients_gold''\<rparr>"

definition example_config_v2 :: db_config where
  "example_config_v2 = example_config\<lparr>golden_table_name := ''patients_gold_v2''\<rparr>"

definition example_warehouse :: "patient list \<Rightarrow> warehouse" where
  "example_warehouse tbl =
     \<lparr>reachable = (\<lambda>cred. True),
      source_tables = [''danny_catalog.healthcare_mdm_schema.patients'' \<mapsto> tbl],
      golden_tables = [''danny_catalog.healthcare_mdm_schema.patients_gold'' \<mapsto> []],
      next_identity = 1,
      current_timestamp = 1000\<rparr>"

definition example_app :: "patient list \<Rightarrow> app" where
  "example_app tbl =
     \<lparr>db_config = example_config,
      ai_model_name = ''databricks-meta-llama-3-3-70b-instruct'',
      data_cache = Map.empty, cache_timestamps = Map.empty, clock = 1000,
      messages = [], wh = example_warehouse tbl\<rparr>"

text \<open>The same app with a warehouse that cannot be reached.\<close>

definition example_offline_app :: app where
  "example_offline_app =
     (example_app example_patients)\<lparr>wh := (example_warehouse example_patients)\<lparr>reachable := (\<lambda>cred. False)\<rparr>\<rparr>"

text \<open>
  The app 300 seconds after it cached a frame under one key, and one second after it
  cached a frame under another.
\<close>

definition example_cached_app :: app where
  "example_cached_app =
     (set_cached_data
        ((set_cached_data (example_app []) ''some_key'' EmptyFrame)\<lparr>clock := 1299\<rparr>)
        ''fresh_key'' DemoQuality)\<lparr>clock := 1300\<rparr>"

text \<open>A golden table with one pending record.\<close>

definition example_golden_row :: golden_row where
  "example_golden_row =
     map_of
       [(''golden_record_id'', SInt 1),
        (''patient_id_cluster'', SStr ''1,2''),
        (''patient_name'', SStr ''John Smith''),
        (''medicare_number'', SStr ''2428912345678''),
        (''confidence_score'', SDouble (9 / 10)),
        (''source_patient_ids'', SStr ''1,2''),
        (''steward_status'', SStr ''pending''),
        (''steward_comments'', SNull),
        (''approved_by'', SNull),
        (''approved_at'', SNull),
        (''created_at'', STimestamp 900),
        (''updated_at'', STimestamp 900)]"

definition example_steward_app :: app where
  "example_steward_app =
     (example_app [])\<lparr>wh := (example_warehouse [])\<lparr>golden_tables :=
        [''danny_catalog.healthcare_mdm_schema.patients_gold'' \<mapsto> [example_golden_row]]\<rparr>\<rparr>"

text \<open>
  The golden record that the example service makes of two of the example patients: their
  \<open>NULL\<close> columns make the merge prompt \<open>NULL\<close>, and so every merged field.
\<close>

definition example_new_golden_row :: "nat \<Rightarrow> string \<Rightarrow> golden_row" where
  "example_new_golden_row ident source_ids =
     map_of
       [(''golden_record_id'', SInt ident),
        (''patient_id_cluster'', SStr source_ids),
        (''medical_record_num'', SNull),
        (''patient_name'', SNull),
        (''date_of_birth'', SNull),
        (''medicare_number'', SNull),
        (''phone'', SNull),
        (''email'', SNull),
        (''address'', SNull),
        (''suburb'', SNull),
        (''state'', SNull),
        (''postcode'', SNull),
        (''private_health_fund'', SNull),
        (''membership_number'', SNull),
        (''emergency_contact'', SNull),
        (''gp_name'', SNull),
        (''blood_type'', SNull),
        (''gender'', SNull),
        (''confidence_score'', SNull),
        (''source_patient_ids'', SStr source_ids),
        (''steward_status'', SStr ''pending''),
        (''steward_comments'', SNull),
        (''approved_by'', SNull),
        (''approved_at'', SNull),
        (''created_at'', STimestamp 1000),
        (''updated_at'', STimestamp 1000)]"

text \<open>The texts of the sixteen areas when the steward approves that record.\<close>

definition example_edits :: "string \<Rightarrow> string" where
  "example_edits field_key =
     (if field_key = ''patient_name'' then ''John O'Smith''
      else if field_key = ''date_of_birth'' then ''1980-01-01''
      else if field_key = ''medicare_number'' then ''2428912345678''
      else [])"

text \<open>A warehouse with two golden tables: the default one and an empty second one.\<close>

definition example_two_tables_app :: app where
  "example_two_tables_app =
     (example_app [])\<lparr>wh := (example_warehouse [])\<lparr>golden_tables :=
        [''danny_catalog.healthcare_mdm_schema.patients_gold'' \<mapsto> [example_golden_row],
         ''danny_catalog.healthcare_mdm_schema.patients_gold_v2'' \<mapsto> []]\<rparr>\<rparr>"

section \<open>Facts about the SQL building blocks\<close>

lemma set_insert_desc: "set (insert_desc key x xs) = insert x (set xs)"
  by (induction xs) auto

lemma mset_insert_desc: "mset (insert_desc key x xs) = add_mset x (mset xs)"
  by (induction xs) auto

lemma sorted_insert_desc:
  "sorted_wrt (\<lambda>a b. key b \<le> key a) xs \<Longrightarrow> sorted_wrt (\<lambda>a b. key b \<le> key a) (insert_desc key x xs)"
  by (induction xs) (auto simp: set_insert_desc)

lemma mset_order_by_desc: "mset (order_by_desc key xs) = mset xs"
  unfolding order_by_desc_def by (induction xs) (auto simp: mset_insert_desc)

lemma set_order_by_desc: "set (order_by_desc key xs) = set xs"
  using mset_order_by_desc [of key xs] by (metis set_mset_mset)

lemma length_order_by_desc: "length (order_by_desc key xs) = length xs"
  using mset_order_by_desc [of key xs] by (metis size_mset)

lemma sorted_order_by_desc: "sorted_wrt (\<lambda>a b. key b \<le> key a) (order_by_desc key xs)"
  unfolding order_by_desc_def by (induction xs) (auto simp: sorted_insert_desc)

lemma distinct_map_order_by_desc:
  "distinct (map f (order_by_desc key xs)) = distinct (map f xs)"
proof -
  have "mset (map f (order_by_desc key xs)) = mset (map f xs)"
    by (simp add: mset_order_by_desc)
  then show ?thesis by (metis distinct_count_atmost_1 set_mset_mset)
qed

lemma cross_join_lt_alt:
  "cross_join_lt tbl = concat (map (\<lambda>t1. map (Pair t1) (filter (\<lambda>t2. patient_id t1 < patient_id t2) tbl)) tbl)"
proof -
  have aux: "concat (map (\<lambda>t2. if patient_id t1 < patient_id t2 then [(t1, t2)] else []) ys) =
      map (Pair t1) (filter (\<lambda>t2. patient_id t1 < patient_id t2) ys)" for t1 and ys :: "patient list"
    by (induction ys) auto
  show ?thesis unfolding cross_join_lt_def by (simp only: aux)
qed

lemma set_cross_join_lt:
  "set (cross_join_lt tbl) = {(t1, t2). t1 \<in> set tbl \<and> t2 \<in> set tbl \<and> patient_id t1 < patient_id t2}"
  by (auto simp: cross_join_lt_alt)

lemma distinct_ids_cross_join_aux:
  "distinct (map patient_id xs) \<Longrightarrow> distinct (map patient_id ys) \<Longrightarrow>
   distinct (map (\<lambda>p. (patient_id (fst p), patient_id (snd p)))
     (concat (map (\<lambda>t1. map (Pair t1) (filter (\<lambda>t2. patient_id t1 < patient_id t2) ys)) xs)))"
proof (induction xs)
  case Nil
  then show ?case by simp
next
  case (Cons a xs)
  have inner: "distinct (map (\<lambda>p. (patient_id (fst p), patient_id (snd p)))
      (map (Pair a) (filter (\<lambda>t2. patient_id a < patient_id t2) ys)))"
    using Cons.prems(2) by (simp add: comp_def distinct_map_filter distinct_map inj_on_def)
  show ?case using Cons inner by (auto simp: comp_def)
qed

lemma unordered_pair_eq:
  fixes a b c d :: nat
  assumes "a < b" "c < d" "{a, b} = {c, d}"
  shows "a = c \<and> b = d"
  using assms by (metis doubleton_eq_iff less_imp_not_less)

lemma below_ten_cases:
  "k < 10 \<Longrightarrow> k = 0 \<or> k = 1 \<or> k = 2 \<or> k = 3 \<or> k = 4 \<or> k = 5 \<or> k = 6 \<or> k = 7 \<or> k = 8 \<or> k = (9::nat)"
  by arith

lemma digit_value_digit: "k < 10 \<Longrightarrow> digit_value (''0123456789'' ! k) = Some k"
  by (drule below_ten_cases) (auto simp: digit_value_def)

lemma digit_in_digits: "k < 10 \<Longrightarrow> ''0123456789'' ! k \<in> set ''0123456789''"
  by (drule below_ten_cases) auto

lemma string_of_nat_digits: "set (string_of_nat n) \<subseteq> set ''0123456789''"
proof (induction n rule: string_of_nat.induct)
  case (1 n)
  show ?case
  proof (cases "n < 10")
    case True
    then show ?thesis
      using digit_in_digits [of n] by (subst string_of_nat.simps) simp
  next
    case False
    then show ?thesis
      using 1 digit_in_digits [of "n mod 10"] by (subst string_of_nat.simps) simp
  qed
qed

lemma string_of_nat_not_empty: "string_of_nat n \<noteq> []"
  by (subst string_of_nat.simps) simp

lemma nat_of_digits_snoc:
  "nat_of_digits acc (xs @ [c]) =
     (case nat_of_digits acc xs of
        None \<Rightarrow> None
      | Some a \<Rightarrow> map_option (\<lambda>d. 10 * a + d) (digit_value c))"
  by (induction xs arbitrary: acc) (auto split: option.splits)

lemma nat_of_digits_string_of_nat: "nat_of_digits 0 (string_of_nat n) = Some n"
proof (induction n rule: string_of_nat.induct)
  case (1 n)
  show ?case
  proof (cases "n < 10")
    case True
    then show ?thesis
      by (subst string_of_nat.simps) (simp add: digit_value_digit)
  next
    case False
    then show ?thesis
      using 1 by (subst string_of_nat.simps) (simp add: nat_of_digits_snoc digit_value_digit)
  qed
qed

lemma nat_of_string_string_of_nat: "nat_of_string (string_of_nat n) = Some n"
  by (simp add: nat_of_string_def string_of_nat_not_empty nat_of_digits_string_of_nat)




lemma split_on_append: "sep \<notin> set a \<Longrightarrow> split_on sep (a @ sep # b) = a # split_on sep b"
  by (induction a) auto





lemma and_then_Inr_iff: "and_then r f = Inr y \<longleftrightarrow> (\<exists>x. r = Inr x \<and> f x = Inr y)"
  by (cases r) (simp_all add: and_then_def)

lemma and_then_Inr: "and_then (Inr x) f = f x"
  by (simp add: and_then_def)

lemma and_then_Inl: "and_then (Inl e) f = Inl e"
  by (simp add: and_then_def)

lemma try_all_map_Inr_id: "try_all (map Inr xs) = Inr xs"
  by (induction xs) simp_all

lemma try_all_Inr_iff: "try_all rs = Inr xs \<longleftrightarrow> rs = map Inr xs"
proof
  show "try_all rs = Inr xs \<Longrightarrow> rs = map Inr xs"
    by (induction rs arbitrary: xs) (auto split: sum.splits)
  show "rs = map Inr xs \<Longrightarrow> try_all rs = Inr xs"
    by (simp add: try_all_map_Inr_id)
qed

lemma try_all_map_Inr:
  assumes "try_all (map f xs) = Inr ys"
  shows "list_all2 (\<lambda>x y. f x = Inr y) xs ys"
proof -
  have "map f xs = map Inr ys"
    using assms by (simp add: try_all_Inr_iff)
  then show ?thesis
    by (simp add: list_all2_conv_all_nth list_eq_iff_nth_eq)
qed

lemma try_all_failed: "Inl e \<in> set rs \<Longrightarrow> \<exists>e'. try_all rs = Inl e'"
  by (induction rs) (auto split: sum.splits)

lemma list_all2_map_eq:
  assumes "list_all2 R xs ys" and "\<And>x y. R x y \<Longrightarrow> f x = g y"
  shows "map f xs = map g ys"
  using assms by (induction rule: list_all2_induct) auto

lemma list_all2_right_mem:
  assumes "list_all2 R xs ys" and "y \<in> set ys"
  obtains x where "x \<in> set xs" and "R x y"
  using assms by (induction rule: list_all2_induct) auto



section \<open>Facts about the connectors and the example inputs\<close>

lemma run_query_credentials:
  "run_query eng query user_token s =
     (case execute eng (credentials_of user_token) query (wh s) of
        Inl e \<Rightarrow> (generate_demo_data, st_error s (''Database connection error: '' @ e))
      | Inr (df, w) \<Rightarrow> (df, s\<lparr>wh := w\<rparr>))"
  by (simp add: run_query_def credentials_of_def sql_query_with_service_principal_def
      sql_query_with_user_token_def split: option.splits)

lemma run_query_ok:
  assumes "execute eng (credentials_of user_token) query (wh s) = Inr (df, w)"
  shows "run_query eng query user_token s = (df, s\<lparr>wh := w\<rparr>)"
  using assms by (simp add: run_query_credentials)

lemma run_query_failed:
  assumes "execute eng (credentials_of user_token) query (wh s) = Inl e"
  shows "run_query eng query user_token s =
    (DemoPatients, st_error s (''Database connection error: '' @ e))"
  using assms by (simp add: run_query_credentials generate_demo_data_def)

lemma async_query_wrapper_miss:
  assumes "get_cached_data s (cache_key_of name (db_config s)) = None"
    and "func s = (Inr df, s1)"
  shows "async_query_wrapper name func s =
    (Inr df, set_cached_data s1 (cache_key_of name (db_config s)) df)"
  using assms by (simp add: async_query_wrapper_def)

lemma example_table_ref: "get_table_reference (example_app tbl) ''main'' = ''danny_catalog.healthcare_mdm_schema.patients''"
  by (simp add: get_table_reference_def example_app_def example_config_def)

lemma example_app_miss: "get_cached_data (example_app tbl) k = None"
  by (simp add: get_cached_data_def is_cache_valid_def example_app_def)

lemma example_app_reachable: "reachable (wh (example_app tbl)) cred"
  by (simp add: example_app_def example_warehouse_def)

lemma example_app_table:
  "source_tables (wh (example_app tbl)) (get_table_reference (example_app tbl) ''main'') = Some tbl"
  by (simp add: example_table_ref) (simp add: example_app_def example_warehouse_def)

lemma example_app_model: "get_ai_model_name (example_app tbl) = ''databricks-meta-llama-3-3-70b-instruct''"
  by (simp add: get_ai_model_name_def example_app_def)

section \<open>Properties of the query cache\<close>

text \<open>
  C5. A cache read never returns an entry whose age (the clock minus the entry's timestamp)
  is at least \<open>CACHE_EXPIRY\<close>, which is 300 seconds: \<open>is_cache_valid\<close> is false and
  \<open>get_cached_data\<close> returns \<open>None\<close>. Right after \<open>clear_cache\<close>, whatever the cache held,
  every key is a miss.
\<close>

theorem cache_expiry_and_clear:
  "CACHE_EXPIRY = 300
   \<and> (cache_timestamps s k = Some t \<and> CACHE_EXPIRY \<le> clock s - t \<longrightarrow>
        \<not> is_cache_valid s k \<and> get_cached_data s k = None)
   \<and> \<not> is_cache_valid (clear_cache s) k' \<and> get_cached_data (clear_cache s) k' = None"
  by (simp add: get_cached_data_def is_cache_valid_def clear_cache_def CACHE_EXPIRY_def)

theorem cache_expiry_and_clear_witness:
  "cache_timestamps example_cached_app ''some_key'' = Some 1000
   \<and> data_cache example_cached_app ''some_key'' = Some EmptyFrame
   \<and> clock example_cached_app - 1000 = 300
   \<and> get_cached_data example_cached_app ''some_key'' = None
   \<and> get_cached_data example_cached_app ''fresh_key'' = Some DemoQuality
   \<and> get_cached_data (clear_cache example_cached_app) ''fresh_key'' = None"
proof -
  have a: "cache_timestamps example_cached_app ''some_key'' = Some 1000"
    by (simp add: example_cached_app_def set_cached_data_def example_app_def)
  have b: "CACHE_EXPIRY \<le> clock example_cached_app - 1000"
    by (simp add: example_cached_app_def set_cached_data_def example_app_def CACHE_EXPIRY_def)
  have c: "data_cache example_cached_app ''some_key'' = Some EmptyFrame"
    by (simp add: example_cached_app_def set_cached_data_def example_app_def)
  have d: "clock example_cached_app - 1000 = 300"
    by (simp add: example_cached_app_def set_cached_data_def example_app_def)
  have e: "get_cached_data example_cached_app ''fresh_key'' = Some DemoQuality"
    by (simp add: example_cached_app_def set_cached_data_def example_app_def get_cached_data_def
        is_cache_valid_def CACHE_EXPIRY_def)
  show ?thesis
    using cache_expiry_and_clear [of example_cached_app "''some_key''" 1000 "''fresh_key''"]
      a b c d e
    by simp
qed

text \<open>
  What the \<open>except\<close> branch of \<open>async_query_wrapper\<close> does when the decorated function
  raises on a miss: it stores nothing, reports the exception with \<open>st.error\<close> and returns a
  fallback frame chosen by the name of the function.
\<close>

lemma async_query_wrapper_except_branch:
  assumes "get_cached_data s (cache_key_of func_name (db_config s)) = None"
    and "func s = (Inl e, s1)"
    and "res = async_query_wrapper func_name func s"
  shows "fst res = Inr (fallback_frame func_name)
    \<and> data_cache (snd res) = data_cache s1
    \<and> cache_timestamps (snd res) = cache_timestamps s1
    \<and> messages (snd res) = messages s1 @ [Error (''Query failed: '' @ e)]"
  using assms
  by (simp add: async_query_wrapper_def fallback_frame_def st_error_def Let_def)

text \<open>
  That branch is never taken by a function of the app: the connectors turn a failed
  statement into the demo patients before the wrapper sees an exception, so no decorated
  function raises.
\<close>

lemma decorated_functions_never_raise:
  "fst (fetch_patient_data_func eng user_token s) \<noteq> Inl e"
  "fst (fetch_quality_data_func eng user_token s) \<noteq> Inl e"
  "fst (fetch_duplicate_data_func eng user_token s) \<noteq> Inl e"
  "fst (fetch_golden_records_func eng user_token s) \<noteq> Inl e"
  by (simp_all add: fetch_patient_data_func_def fetch_quality_data_func_def
      fetch_duplicate_data_func_def fetch_golden_records_func_def Let_def split: prod.splits)

text \<open>
  So on a miss, a statement that fails, for whatever reason, makes the wrapper store the
  demo patients under the key of the function and return them.
\<close>

lemma failed_statement_caches_demo_patients:
  assumes "get_cached_data s (cache_key_of ''fetch_quality_data'' (db_config s)) = None"
    and "execute eng (credentials_of user_token)
           (QualityQuery (get_ai_model_name s) (get_table_reference s ''main'')) (wh s) = Inl e"
    and "res = fetch_quality_data eng user_token s"
  shows "fst res = Inr DemoPatients
    \<and> data_cache (snd res) (cache_key_of ''fetch_quality_data'' (db_config s)) = Some DemoPatients
    \<and> messages (snd res) = messages s @ [Error (''Database connection error: '' @ e)]"
  using assms
  by (simp add: fetch_quality_data_def async_query_wrapper_def fetch_quality_data_func_def
      run_query_failed Let_def set_cached_data_def st_error_def)

text \<open>
  C6. The computation of \<open>fetch_quality_data\<close> fails when the warehouse cannot be reached.
  With no entry under its key, the call does not raise: it returns the demo patients,
  stores them under that key with the current time, and the next read of the key returns
  them.
\<close>

theorem failed_query_poisons_cache:
  "get_cached_data example_offline_app
     ''fetch_quality_data_danny_catalog_healthcare_mdm_schema_patients'' = None
   \<and> execute example_engine None
       (QualityQuery ''databricks-meta-llama-3-3-70b-instruct''
          ''danny_catalog.healthcare_mdm_schema.patients'') (wh example_offline_app) =
     Inl ''connection failed''
   \<and> fst (fetch_quality_data example_engine None example_offline_app) = Inr DemoPatients
   \<and> data_cache (snd (fetch_quality_data example_engine None example_offline_app))
       ''fetch_quality_data_danny_catalog_healthcare_mdm_schema_patients'' = Some DemoPatients
   \<and> cache_timestamps (snd (fetch_quality_data example_engine None example_offline_app))
       ''fetch_quality_data_danny_catalog_healthcare_mdm_schema_patients'' = Some 1000
   \<and> get_cached_data (snd (fetch_quality_data example_engine None example_offline_app))
       ''fetch_quality_data_danny_catalog_healthcare_mdm_schema_patients'' = Some DemoPatients"
proof -
  have run: "fetch_quality_data example_engine None example_offline_app =
    (Inr DemoPatients,
     set_cached_data
       (st_error example_offline_app ''Database connection error: connection failed'')
       ''fetch_quality_data_danny_catalog_healthcare_mdm_schema_patients'' DemoPatients)"
    by (simp add: fetch_quality_data_def async_query_wrapper_def fetch_quality_data_func_def
        run_query_def sql_query_with_service_principal_def execute_def get_cached_data_def
        is_cache_valid_def cache_key_of_def generate_demo_data_def example_offline_app_def
        example_app_def example_warehouse_def example_config_def Let_def)
  have miss: "get_cached_data example_offline_app
      ''fetch_quality_data_danny_catalog_healthcare_mdm_schema_patients'' = None"
    by (simp add: get_cached_data_def is_cache_valid_def example_offline_app_def example_app_def)
  have failed: "execute example_engine None
       (QualityQuery ''databricks-meta-llama-3-3-70b-instruct''
          ''danny_catalog.healthcare_mdm_schema.patients'') (wh example_offline_app) =
     Inl ''connection failed''"
    by (simp add: execute_def example_offline_app_def example_app_def example_warehouse_def)
  show ?thesis
    unfolding run
    by (simp add: miss failed)
      (simp add: set_cached_data_def st_error_def get_cached_data_def is_cache_valid_def
        CACHE_EXPIRY_def example_offline_app_def example_app_def)
qed

text \<open>
  C9. The cache key is a function of the function's name and of the catalog, schema and
  source table names of the configuration. \<open>fetch_golden_records\<close> reads the golden table,
  whose name is not part of the key: two configurations that differ only in
  \<open>golden_table_name\<close> give the same key for two different target tables.
\<close>

theorem golden_cache_key_collision:
  "cache_key_of ''fetch_golden_records'' example_config =
     cache_key_of ''fetch_golden_records'' example_config_v2
   \<and> get_table_reference ((example_app [])\<lparr>db_config := example_config\<rparr>) ''golden'' =
       ''danny_catalog.healthcare_mdm_schema.patients_gold''
   \<and> get_table_reference ((example_app [])\<lparr>db_config := example_config_v2\<rparr>) ''golden'' =
       ''danny_catalog.healthcare_mdm_schema.patients_gold_v2''"
  by (simp add: cache_key_of_def example_config_v2_def example_config_def get_table_reference_def)

text \<open>
  What follows from the shared key: after \<open>fetch_golden_records\<close> has run under the first
  configuration, a call under the second one, whose golden table is empty, returns the
  cached row of the first configuration's table.
\<close>

lemma fetch_golden_records_first:
  "fetch_golden_records example_engine None example_two_tables_app =
     (Inr (GoldenRows [example_golden_row]),
      set_cached_data example_two_tables_app
        ''fetch_golden_records_danny_catalog_healthcare_mdm_schema_patients''
        (GoldenRows [example_golden_row]))"
  by (simp add: fetch_golden_records_def async_query_wrapper_def fetch_golden_records_func_def
      run_query_def sql_query_with_service_principal_def execute_def golden_query_def
      order_by_desc_def get_cached_data_def is_cache_valid_def cache_key_of_def
      get_table_reference_def example_two_tables_app_def example_app_def example_warehouse_def
      example_config_def Let_def)

lemma fetch_golden_records_stale_table:
  "fst (fetch_golden_records example_engine None
      ((snd (fetch_golden_records example_engine None example_two_tables_app))
         \<lparr>db_config := example_config_v2\<rparr>)) = Inr (GoldenRows [example_golden_row])
   \<and> golden_tables (wh example_two_tables_app)
       (get_table_reference (example_two_tables_app\<lparr>db_config := example_config_v2\<rparr>) ''golden'') =
     Some []"
  unfolding fetch_golden_records_first
  by (simp add: fetch_golden_records_def async_query_wrapper_def get_cached_data_def
      is_cache_valid_def set_cached_data_def cache_key_of_def CACHE_EXPIRY_def
      get_table_reference_def example_two_tables_app_def example_app_def example_warehouse_def
      example_config_def example_config_v2_def Let_def)

text \<open>What holds of the key: it separates source tables within one catalog and schema.\<close>

lemma cache_key_table_name_injective:
  assumes "catalog_name c = catalog_name c'" and "schema_name c = schema_name c'"
    and "cache_key_of func_name c = cache_key_of func_name c'"
  shows "table_name c = table_name c'"
  using assms by (simp add: cache_key_of_def)

section \<open>Properties of quality assessment\<close>

lemma fetch_quality_data_func_ok:
  assumes "reachable (wh s) (credentials_of user_token)"
    and "source_tables (wh s) (get_table_reference s ''main'') = Some tbl"
    and "quality_query eng (get_ai_model_name s) tbl = Inr rows"
  shows "fetch_quality_data_func eng user_token s = (Inr (QualityRows rows), s)"
  using assms
  by (simp add: fetch_quality_data_func_def run_query_credentials execute_def and_then_Inr Let_def)

lemma fetch_quality_data_func_failed:
  assumes "reachable (wh s) (credentials_of user_token)"
    and "source_tables (wh s) (get_table_reference s ''main'') = Some tbl"
    and "quality_query eng (get_ai_model_name s) tbl = Inl e"
  shows "fetch_quality_data_func eng user_token s =
    (Inr DemoPatients, st_error s (''Database connection error: '' @ e))"
  using assms
  by (simp add: fetch_quality_data_func_def run_query_credentials execute_def and_then_Inl Let_def
      generate_demo_data_def)

lemma patient_quality_row:
  assumes "patient_quality eng m t = Inr scored"
  shows "q_patient_id (fst scored) = patient_id t \<and> quality_number eng (fst scored) = snd scored"
  using assms
  by (auto simp: patient_quality_def and_then_Inr_iff quality_number_def Let_def)

lemma quality_query_rows:
  assumes "quality_query eng m tbl = Inr rows"
  obtains scored where "list_all2 (\<lambda>t row. patient_quality eng m t = Inr row) tbl scored"
    and "rows = map fst (order_by_desc snd scored)"
  using assms by (auto simp: quality_query_def and_then_Inr_iff dest: try_all_map_Inr)

text \<open>
  C8, as the code has it. On a cache miss, with the warehouse reachable and a statement
  that runs without error (every call of the model and every cast succeeds),
  \<open>fetch_quality_data\<close> returns exactly one assessment per row of the source table (the
  ids of the result are the ids of the table, each as often), ordered by the quality score
  cast to \<open>INT\<close>, descending, and not by record id.
\<close>

theorem fetch_quality_data_assessments:
  assumes "get_cached_data s (cache_key_of ''fetch_quality_data'' (db_config s)) = None"
    and "reachable (wh s) (credentials_of user_token)"
    and "source_tables (wh s) (get_table_reference s ''main'') = Some tbl"
    and "quality_query eng (get_ai_model_name s) tbl = Inr rows"
  shows "fst (fetch_quality_data eng user_token s) = Inr (QualityRows rows)
    \<and> length rows = length tbl
    \<and> mset (map q_patient_id rows) = mset (map patient_id tbl)
    \<and> sorted_wrt (\<lambda>a b. quality_number eng b \<le> quality_number eng a) rows"
proof -
  obtain scored where scored: "list_all2 (\<lambda>t row. patient_quality eng (get_ai_model_name s) t = Inr row) tbl scored"
    and rows: "rows = map fst (order_by_desc snd scored)"
    using assms(4) by (rule quality_query_rows)
  have returned: "fst (fetch_quality_data eng user_token s) = Inr (QualityRows rows)"
    unfolding fetch_quality_data_def
    using assms(1) fetch_quality_data_func_ok [OF assms(2-4)]
    by (simp add: async_query_wrapper_miss)
  have len: "length rows = length tbl"
    using list_all2_lengthD [OF scored] by (simp add: rows length_order_by_desc)
  have ids: "map patient_id tbl = map (q_patient_id \<circ> fst) scored"
    by (rule list_all2_map_eq [OF scored]) (simp add: patient_quality_row)
  have "mset (map q_patient_id rows) = mset (map (q_patient_id \<circ> fst) scored)"
    by (simp add: rows mset_order_by_desc multiset.map_comp)
  then have bag: "mset (map q_patient_id rows) = mset (map patient_id tbl)"
    by (simp add: ids)
  have key: "quality_number eng (fst row) = snd row" if mem: "row \<in> set scored" for row
  proof -
    obtain t where "patient_quality eng (get_ai_model_name s) t = Inr row"
      using list_all2_right_mem [OF scored mem] by blast
    then show ?thesis by (simp add: patient_quality_row)
  qed
  have "sorted_wrt (\<lambda>a b. snd b \<le> snd a) (order_by_desc snd scored)"
    by (rule sorted_order_by_desc)
  then have "sorted_wrt (\<lambda>a b. quality_number eng (fst b) \<le> quality_number eng (fst a))
      (order_by_desc snd scored)"
    by (rule sorted_wrt_mono_rel [rotated]) (simp add: key set_order_by_desc)
  then have sorted: "sorted_wrt (\<lambda>a b. quality_number eng b \<le> quality_number eng a) rows"
    by (simp add: rows sorted_wrt_map)
  show ?thesis
    using returned len bag sorted by simp
qed

lemma example_quality_query:
  "quality_query example_engine m example_patients_by_id =
     Inr [example_assessment 3 ''Jane Doe'' ''90'', example_assessment 1 ''John Smith'' ''50'',
          example_assessment 2 ''J. Smith'' ''50'']"
  by (simp add: quality_query_def example_patients_by_id_def example_patient_def
      patient_quality_def quality_prompt_def sql_concat_def example_engine_def
      example_oracle_def order_by_desc_def example_assessment_def and_then_def Let_def)

lemma example_fetch_quality_data:
  "fst (fetch_quality_data example_engine None (example_app example_patients_by_id)) =
     Inr (QualityRows
       [example_assessment 3 ''Jane Doe'' ''90'', example_assessment 1 ''John Smith'' ''50'',
        example_assessment 2 ''J. Smith'' ''50''])"
proof -
  have "fetch_quality_data_func example_engine None (example_app example_patients_by_id) =
      (Inr (QualityRows
         [example_assessment 3 ''Jane Doe'' ''90'', example_assessment 1 ''John Smith'' ''50'',
          example_assessment 2 ''J. Smith'' ''50'']),
       example_app example_patients_by_id)"
    by (rule fetch_quality_data_func_ok
        [OF example_app_reachable example_app_table example_quality_query])
  then show ?thesis
    unfolding fetch_quality_data_def
    by (simp add: async_query_wrapper_miss example_app_miss)
qed

lemma example_quality_query_down:
  "quality_query example_engine_down m example_patients_by_id = Inl ''model endpoint unavailable''"
  by (simp add: quality_query_def example_patients_by_id_def patient_quality_def
      example_engine_down_def and_then_def)

lemma example_fetch_quality_data_down:
  "fst (fetch_quality_data example_engine_down None (example_app example_patients_by_id)) =
     Inr DemoPatients"
proof -
  have "fetch_quality_data_func example_engine_down None (example_app example_patients_by_id) =
      (Inr DemoPatients,
       st_error (example_app example_patients_by_id)
         (''Database connection error: '' @ ''model endpoint unavailable''))"
    by (rule fetch_quality_data_func_failed
        [OF example_app_reachable example_app_table example_quality_query_down])
  then show ?thesis
    unfolding fetch_quality_data_def
    by (simp add: async_query_wrapper_miss example_app_miss)
qed

theorem fetch_quality_data_assessments_witness:
  "fst (fetch_quality_data example_engine None (example_app example_patients_by_id)) =
     Inr (QualityRows
       [example_assessment 3 ''Jane Doe'' ''90'', example_assessment 1 ''John Smith'' ''50'',
        example_assessment 2 ''J. Smith'' ''50''])
   \<and> length [example_assessment 3 ''Jane Doe'' ''90'', example_assessment 1 ''John Smith'' ''50'',
        example_assessment 2 ''J. Smith'' ''50''] = length example_patients_by_id
   \<and> mset (map q_patient_id
        [example_assessment 3 ''Jane Doe'' ''90'', example_assessment 1 ''John Smith'' ''50'',
         example_assessment 2 ''J. Smith'' ''50'']) = mset (map patient_id example_patients_by_id)
   \<and> sorted_wrt (\<lambda>a b. quality_number example_engine b \<le> quality_number example_engine a)
        [example_assessment 3 ''Jane Doe'' ''90'', example_assessment 1 ''John Smith'' ''50'',
         example_assessment 2 ''J. Smith'' ''50'']"
  by (rule fetch_quality_data_assessments
      [OF example_app_miss example_app_reachable example_app_table example_quality_query])

text \<open>
  C8, as stated, asks for one assessment per record in the order of the record ids. For
  a table with the ids 1, 2, 3 in this order, where record 3 has the best score, the
  result has the ids 3, 1, 2. And when the model endpoint is down, the result for the same
  table is not a list of assessments but the frame of the demo patients.
\<close>

theorem fetch_quality_data_order_counterexample:
  "map patient_id example_patients_by_id = [1, 2, 3]
   \<and> map q_patient_id
       (quality_rows_of
          (fst (fetch_quality_data example_engine None (example_app example_patients_by_id)))) =
     [3, 1, 2]
   \<and> \<not> sorted (map q_patient_id
       (quality_rows_of
          (fst (fetch_quality_data example_engine None (example_app example_patients_by_id)))))
   \<and> fst (fetch_quality_data example_engine_down None (example_app example_patients_by_id)) =
       Inr DemoPatients"
  unfolding example_fetch_quality_data example_fetch_quality_data_down
  by (simp add: quality_rows_of_def example_assessment_def example_patients_by_id_def
      example_patient_def)

section \<open>Properties of duplicate detection\<close>

lemma pairwise_similarity_row:
  assumes "pairwise_similarity eng m p = Inr scored"
  shows "id1 (fst scored) = patient_id (fst p) \<and> id2 (fst scored) = patient_id (snd p)
    \<and> cast_double eng (similarity_score (fst scored)) = Inr (snd scored)"
  using assms
  by (cases p) (auto simp: pairwise_similarity_def and_then_Inr_iff Let_def)

lemma duplicate_query_rows:
  assumes "duplicate_query eng m tbl = Inr rows"
  obtains scored where
    "list_all2 (\<lambda>p row. pairwise_similarity eng m p = Inr row) (cross_join_lt tbl) scored"
    and "rows = order_by_desc similarity_score
           (map fst (filter (\<lambda>row_score. above_half (snd row_score)) scored))"
  using assms by (auto simp: duplicate_query_def and_then_Inr_iff dest: try_all_map_Inr)

lemma duplicate_query_row_origin:
  assumes "duplicate_query eng m tbl = Inr rows" and "r \<in> set rows"
  obtains t1 t2 score where "t1 \<in> set tbl" and "t2 \<in> set tbl" and "patient_id t1 < patient_id t2"
    and "pairwise_similarity eng m (t1, t2) = Inr (r, score)" and "above_half score"
proof -
  obtain scored where
    scored: "list_all2 (\<lambda>p row. pairwise_similarity eng m p = Inr row) (cross_join_lt tbl) scored"
    and rows: "rows = order_by_desc similarity_score
           (map fst (filter (\<lambda>row_score. above_half (snd row_score)) scored))"
    using assms(1) by (rule duplicate_query_rows)
  obtain score where mem: "(r, score) \<in> set scored" and above: "above_half score"
    using assms(2) by (auto simp: rows set_order_by_desc)
  obtain p where p: "p \<in> set (cross_join_lt tbl)"
    and sim: "pairwise_similarity eng m p = Inr (r, score)"
    using list_all2_right_mem [OF scored mem] by blast
  obtain t1 t2 where pair: "p = (t1, t2)"
    by (cases p)
  have "t1 \<in> set tbl" and "t2 \<in> set tbl" and "patient_id t1 < patient_id t2"
    using p by (simp_all add: pair set_cross_join_lt)
  then show ?thesis
    using sim above by (intro that [of t1 t2 score]) (simp_all add: pair)
qed

lemma duplicate_query_ids_less:
  assumes "duplicate_query eng m tbl = Inr rows"
  shows "list_all (\<lambda>r. id1 r < id2 r) rows"
  unfolding list_all_iff
proof
  fix r
  assume "r \<in> set rows"
  with assms obtain t1 t2 score where "patient_id t1 < patient_id t2"
    and "pairwise_similarity eng m (t1, t2) = Inr (r, score)"
    by (rule duplicate_query_row_origin)
  then show "id1 r < id2 r"
    using pairwise_similarity_row [of eng m "(t1, t2)" "(r, score)"] by simp
qed

lemma duplicate_query_scores:
  assumes "duplicate_query eng m tbl = Inr rows"
  shows "list_all (\<lambda>r. above_half (score_number eng r)) rows"
  unfolding list_all_iff
proof
  fix r
  assume "r \<in> set rows"
  with assms obtain t1 t2 score where "above_half score"
    and "pairwise_similarity eng m (t1, t2) = Inr (r, score)"
    by (rule duplicate_query_row_origin)
  then show "above_half (score_number eng r)"
    using pairwise_similarity_row [of eng m "(t1, t2)" "(r, score)"]
    by (simp add: score_number_def)
qed

lemma duplicate_query_sorted:
  assumes "duplicate_query eng m tbl = Inr rows"
  shows "sorted_wrt (\<lambda>a b. similarity_score b \<le> similarity_score a) rows"
  using assms by (auto simp: duplicate_query_def and_then_Inr_iff sorted_order_by_desc)

lemma duplicate_query_sorted_numbers:
  assumes "duplicate_query eng m tbl = Inr rows" and "text_order_agrees eng rows"
  shows "sorted_wrt (\<lambda>a b. score_number eng b \<le> score_number eng a) rows"
  using duplicate_query_sorted [OF assms(1)]
proof (rule sorted_wrt_mono_rel [rotated])
  fix a b
  assume "a \<in> set rows" and "b \<in> set rows" and "similarity_score b \<le> similarity_score a"
  then show "score_number eng b \<le> score_number eng a"
    using assms(2) by (simp add: text_order_agrees_def list_all_iff)
qed

lemma duplicate_query_distinct_ordered:
  assumes "duplicate_query eng m tbl = Inr rows" and "distinct (map patient_id tbl)"
  shows "distinct (map (\<lambda>r. (id1 r, id2 r)) rows)"
proof -
  obtain scored where
    scored: "list_all2 (\<lambda>p row. pairwise_similarity eng m p = Inr row) (cross_join_lt tbl) scored"
    and rows: "rows = order_by_desc similarity_score
           (map fst (filter (\<lambda>row_score. above_half (snd row_score)) scored))"
    using assms(1) by (rule duplicate_query_rows)
  have "map (\<lambda>p. (patient_id (fst p), patient_id (snd p))) (cross_join_lt tbl) =
      map (\<lambda>row. (id1 (fst row), id2 (fst row))) scored"
    by (rule list_all2_map_eq [OF scored]) (simp add: pairwise_similarity_row)
  moreover have "distinct (map (\<lambda>p. (patient_id (fst p), patient_id (snd p))) (cross_join_lt tbl))"
    using distinct_ids_cross_join_aux [OF assms(2) assms(2)] by (simp add: cross_join_lt_alt)
  ultimately have "distinct (map (\<lambda>row. (id1 (fst row), id2 (fst row))) scored)"
    by simp
  then have "distinct (map (\<lambda>row. (id1 (fst row), id2 (fst row)))
      (filter (\<lambda>row_score. above_half (snd row_score)) scored))"
    by (rule distinct_map_filter)
  then show ?thesis
    by (simp add: rows distinct_map_order_by_desc comp_def)
qed

lemma duplicate_query_distinct_unordered:
  assumes "duplicate_query eng m tbl = Inr rows" and "distinct (map patient_id tbl)"
  shows "distinct (map (\<lambda>r. {id1 r, id2 r}) rows)"
proof -
  have less: "\<forall>r \<in> set rows. id1 r < id2 r"
    using duplicate_query_ids_less [OF assms(1)] by (simp add: list_all_iff)
  have eq: "(\<lambda>p. {fst p, snd p}) \<circ> (\<lambda>r. (id1 r, id2 r)) = (\<lambda>r::pair_row. {id1 r, id2 r})"
    by (simp add: fun_eq_iff)
  have "distinct (map (\<lambda>p. {fst p, snd p}) (map (\<lambda>r. (id1 r, id2 r)) rows))"
  proof (rule distinct_map [THEN iffD2], intro conjI)
    show "distinct (map (\<lambda>r. (id1 r, id2 r)) rows)"
      by (rule duplicate_query_distinct_ordered [OF assms])
    show "inj_on (\<lambda>p. {fst p, snd p}) (set (map (\<lambda>r. (id1 r, id2 r)) rows))"
      using less by (auto simp: inj_on_def dest: unordered_pair_eq)
  qed
  then show ?thesis by (simp add: eq)
qed

lemma fetch_duplicate_data_func_ok:
  assumes "reachable (wh s) (credentials_of user_token)"
    and "source_tables (wh s) (get_table_reference s ''main'') = Some tbl"
    and "duplicate_query eng (get_ai_model_name s) tbl = Inr rows"
  shows "fetch_duplicate_data_func eng user_token s = (Inr (DuplicateRows rows), s)"
  using assms
  by (simp add: fetch_duplicate_data_func_def run_query_credentials execute_def and_then_Inr Let_def)

lemma fetch_duplicate_data_func_failed:
  assumes "reachable (wh s) (credentials_of user_token)"
    and "source_tables (wh s) (get_table_reference s ''main'') = Some tbl"
    and "duplicate_query eng (get_ai_model_name s) tbl = Inl e"
  shows "fetch_duplicate_data_func eng user_token s =
    (Inr DemoPatients, st_error s (''Database connection error: '' @ e))"
  using assms
  by (simp add: fetch_duplicate_data_func_def run_query_credentials execute_def and_then_Inl Let_def
      generate_demo_data_def)

lemma fetch_duplicate_data_returns:
  assumes "get_cached_data s (cache_key_of ''fetch_duplicate_data'' (db_config s)) = None"
    and "reachable (wh s) (credentials_of user_token)"
    and "source_tables (wh s) (get_table_reference s ''main'') = Some tbl"
    and "duplicate_query eng (get_ai_model_name s) tbl = Inr rows"
  shows "fst (fetch_duplicate_data eng user_token s) = Inr (DuplicateRows rows)"
  unfolding fetch_duplicate_data_def
  using assms(1) fetch_duplicate_data_func_ok [OF assms(2-4)]
  by (simp add: async_query_wrapper_miss)

text \<open>
  C1, as the code has it. On a cache miss, with the warehouse reachable, a source table
  whose patient ids are distinct and a statement that runs without error (every call of
  the model and every cast succeeds), the list returned by \<open>fetch_duplicate_data\<close>
  contains only pairs with \<open>id1 < id2\<close>, contains no unordered pair twice and contains only
  pairs whose \<open>similarity_score\<close> is a number greater than 0.5; and it is sorted descending
  by that number whenever the scores of the list compare as texts the way they compare as
  numbers. The statement has no second sort key.
\<close>

theorem fetch_duplicate_data_pairs:
  assumes "get_cached_data s (cache_key_of ''fetch_duplicate_data'' (db_config s)) = None"
    and "reachable (wh s) (credentials_of user_token)"
    and "source_tables (wh s) (get_table_reference s ''main'') = Some tbl"
    and "duplicate_query eng (get_ai_model_name s) tbl = Inr rows"
    and "distinct (map patient_id tbl)"
  shows "fst (fetch_duplicate_data eng user_token s) = Inr (DuplicateRows rows)
    \<and> list_all (\<lambda>r. id1 r < id2 r) rows
    \<and> distinct (map (\<lambda>r. {id1 r, id2 r}) rows)
    \<and> list_all (\<lambda>r. above_half (score_number eng r)) rows
    \<and> (text_order_agrees eng rows \<longrightarrow>
         sorted_wrt (\<lambda>a b. score_number eng b \<le> score_number eng a) rows)"
  using fetch_duplicate_data_returns [OF assms(1-4)] duplicate_query_ids_less [OF assms(4)]
    duplicate_query_distinct_unordered [OF assms(4,5)] duplicate_query_scores [OF assms(4)]
    duplicate_query_sorted_numbers [OF assms(4)]
  by simp

lemma example_duplicate_query:
  "duplicate_query example_engine m example_patients =
     Inr [example_pair 1 ''John Smith'' 2 ''J. Smith'' ''0.9'',
          example_pair 2 ''J. Smith'' 3 ''Jane Doe'' ''0.6'',
          example_pair 1 ''John Smith'' 3 ''Jane Doe'' ''0.6'']"
  by (simp add: duplicate_query_def cross_join_lt_def example_patients_def example_patient_def
      pairwise_similarity_def similarity_prompt_def sql_concat_def example_engine_def
      example_oracle_def above_half_def order_by_desc_def example_pair_def and_then_def Let_def)

lemma example_duplicate_query_same_id:
  "duplicate_query example_engine m example_patients_same_id =
     Inr [example_pair 1 ''John Smith'' 2 ''J. Smith'' ''0.9'',
          example_pair 1 ''Jon Smith'' 2 ''J. Smith'' ''0.9'']"
  by (simp add: duplicate_query_def cross_join_lt_def example_patients_same_id_def
      example_patient_def pairwise_similarity_def similarity_prompt_def sql_concat_def
      example_engine_def example_oracle_def above_half_def order_by_desc_def example_pair_def
      and_then_def Let_def)

lemma example_duplicate_query_exponent:
  "duplicate_query example_engine_exponent m example_patients =
     Inr [example_pair 2 ''J. Smith'' 3 ''Jane Doe'' ''5.5e-1'',
          example_pair 1 ''John Smith'' 3 ''Jane Doe'' ''5.5e-1'',
          example_pair 1 ''John Smith'' 2 ''J. Smith'' ''0.9'']"
  by (simp add: duplicate_query_def cross_join_lt_def example_patients_def example_patient_def
      pairwise_similarity_def similarity_prompt_def sql_concat_def example_engine_exponent_def
      example_engine_def example_oracle_def above_half_def order_by_desc_def example_pair_def
      and_then_def Let_def)

lemma example_duplicate_query_down:
  "duplicate_query example_engine_down m example_patients = Inl ''model endpoint unavailable''"
  by (simp add: duplicate_query_def cross_join_lt_def example_patients_def example_patient_def
      pairwise_similarity_def example_engine_down_def and_then_def)

lemma example_fetch_duplicate_data_down:
  "fst (fetch_duplicate_data example_engine_down None (example_app example_patients)) =
     Inr DemoPatients"
proof -
  have "fetch_duplicate_data_func example_engine_down None (example_app example_patients) =
      (Inr DemoPatients,
       st_error (example_app example_patients)
         (''Database connection error: '' @ ''model endpoint unavailable''))"
    by (rule fetch_duplicate_data_func_failed
        [OF example_app_reachable example_app_table example_duplicate_query_down])
  then show ?thesis
    unfolding fetch_duplicate_data_def
    by (simp add: async_query_wrapper_miss example_app_miss)
qed

lemma example_score_numbers:
  "score_number example_engine (example_pair i name_i j name_j ''0.9'') = Some (9 / 10)"
  "score_number example_engine (example_pair i name_i j name_j ''0.6'') = Some (3 / 5)"
  "score_number example_engine_exponent (example_pair i name_i j name_j ''0.9'') = Some (9 / 10)"
  "score_number example_engine_exponent (example_pair i name_i j name_j ''5.5e-1'') = Some (11 / 20)"
  by (simp_all add: score_number_def example_pair_def example_engine_def
      example_engine_exponent_def)

theorem fetch_duplicate_data_pairs_witness:
  "fst (fetch_duplicate_data example_engine None (example_app example_patients)) =
     Inr (DuplicateRows
       [example_pair 1 ''John Smith'' 2 ''J. Smith'' ''0.9'',
        example_pair 2 ''J. Smith'' 3 ''Jane Doe'' ''0.6'',
        example_pair 1 ''John Smith'' 3 ''Jane Doe'' ''0.6''])
   \<and> list_all (\<lambda>r. id1 r < id2 r)
       [example_pair 1 ''John Smith'' 2 ''J. Smith'' ''0.9'',
        example_pair 2 ''J. Smith'' 3 ''Jane Doe'' ''0.6'',
        example_pair 1 ''John Smith'' 3 ''Jane Doe'' ''0.6'']
   \<and> distinct (map (\<lambda>r. {id1 r, id2 r})
       [example_pair 1 ''John Smith'' 2 ''J. Smith'' ''0.9'',
        example_pair 2 ''J. Smith'' 3 ''Jane Doe'' ''0.6'',
        example_pair 1 ''John Smith'' 3 ''Jane Doe'' ''0.6''])
   \<and> list_all (\<lambda>r. above_half (score_number example_engine r))
       [example_pair 1 ''John Smith'' 2 ''J. Smith'' ''0.9'',
        example_pair 2 ''J. Smith'' 3 ''Jane Doe'' ''0.6'',
        example_pair 1 ''John Smith'' 3 ''Jane Doe'' ''0.6'']
   \<and> text_order_agrees example_engine
       [example_pair 1 ''John Smith'' 2 ''J. Smith'' ''0.9'',
        example_pair 2 ''J. Smith'' 3 ''Jane Doe'' ''0.6'',
        example_pair 1 ''John Smith'' 3 ''Jane Doe'' ''0.6'']
   \<and> sorted_wrt (\<lambda>a b. score_number example_engine b \<le> score_number example_engine a)
       [example_pair 1 ''John Smith'' 2 ''J. Smith'' ''0.9'',
        example_pair 2 ''J. Smith'' 3 ''Jane Doe'' ''0.6'',
        example_pair 1 ''John Smith'' 3 ''Jane Doe'' ''0.6'']"
proof -
  have ids: "distinct (map patient_id example_patients)"
    by (simp add: example_patients_def example_patient_def)
  have agrees: "text_order_agrees example_engine
       [example_pair 1 ''John Smith'' 2 ''J. Smith'' ''0.9'',
        example_pair 2 ''J. Smith'' 3 ''Jane Doe'' ''0.6'',
        example_pair 1 ''John Smith'' 3 ''Jane Doe'' ''0.6'']"
    by (simp add: text_order_agrees_def example_score_numbers) (simp add: example_pair_def)
  show ?thesis
    using fetch_duplicate_data_pairs
      [OF example_app_miss example_app_reachable example_app_table example_duplicate_query ids]
      agrees
    by blast
qed

text \<open>
  C1, as stated, asks for all tables that no pair be returned twice, and that the list be
  sorted by the score with ties broken by \<open>(id1, id2)\<close> ascending. For the table with the
  ids 3, 2, 1 in this order, the pairs (2, 3) and (1, 3) have the same score and come out
  in this order. For a table in which two rows have the id 1, the pair (1, 2) comes out
  twice. When the service writes 0.55 as \<open>5.5e-1\<close>, the pairs with this score come out
  before the pair with the score \<open>0.9\<close>. And when the model endpoint is down, the result is
  not a list of pairs but the frame of the demo patients.
\<close>

theorem fetch_duplicate_data_counterexample:
  "map pair_summary
     (duplicate_rows_of (fst (fetch_duplicate_data example_engine None (example_app example_patients)))) =
     [(1, 2, Some ''0.9''), (2, 3, Some ''0.6''), (1, 3, Some ''0.6'')]
   \<and> \<not> sorted_wrt (id_tie_break_order example_engine)
       (duplicate_rows_of (fst (fetch_duplicate_data example_engine None (example_app example_patients))))
   \<and> map pair_summary
       (duplicate_rows_of
          (fst (fetch_duplicate_data example_engine None (example_app example_patients_same_id)))) =
     [(1, 2, Some ''0.9''), (1, 2, Some ''0.9'')]
   \<and> \<not> distinct (map (\<lambda>r. {id1 r, id2 r})
       (duplicate_rows_of
          (fst (fetch_duplicate_data example_engine None (example_app example_patients_same_id)))))
   \<and> map pair_summary
       (duplicate_rows_of
          (fst (fetch_duplicate_data example_engine_exponent None (example_app example_patients)))) =
     [(2, 3, Some ''5.5e-1''), (1, 3, Some ''5.5e-1''), (1, 2, Some ''0.9'')]
   \<and> \<not> sorted_wrt
         (\<lambda>a b. score_number example_engine_exponent b \<le> score_number example_engine_exponent a)
       (duplicate_rows_of
          (fst (fetch_duplicate_data example_engine_exponent None (example_app example_patients))))
   \<and> fst (fetch_duplicate_data example_engine_down None (example_app example_patients)) =
       Inr DemoPatients"
proof -
  have a: "fst (fetch_duplicate_data example_engine None (example_app example_patients)) =
      Inr (DuplicateRows
       [example_pair 1 ''John Smith'' 2 ''J. Smith'' ''0.9'',
        example_pair 2 ''J. Smith'' 3 ''Jane Doe'' ''0.6'',
        example_pair 1 ''John Smith'' 3 ''Jane Doe'' ''0.6''])"
    by (rule fetch_duplicate_data_returns
        [OF example_app_miss example_app_reachable example_app_table example_duplicate_query])
  have b: "fst (fetch_duplicate_data example_engine None (example_app example_patients_same_id)) =
      Inr (DuplicateRows
       [example_pair 1 ''John Smith'' 2 ''J. Smith'' ''0.9'',
        example_pair 1 ''Jon Smith'' 2 ''J. Smith'' ''0.9''])"
    by (rule fetch_duplicate_data_returns
        [OF example_app_miss example_app_reachable example_app_table example_duplicate_query_same_id])
  have c: "fst (fetch_duplicate_data example_engine_exponent None (example_app example_patients)) =
      Inr (DuplicateRows
       [example_pair 2 ''J. Smith'' 3 ''Jane Doe'' ''5.5e-1'',
        example_pair 1 ''John Smith'' 3 ''Jane Doe'' ''5.5e-1'',
        example_pair 1 ''John Smith'' 2 ''J. Smith'' ''0.9''])"
    by (rule fetch_duplicate_data_returns
        [OF example_app_miss example_app_reachable example_app_table example_duplicate_query_exponent])
  have ties: "\<not> sorted_wrt (id_tie_break_order example_engine)
       [example_pair 1 ''John Smith'' 2 ''J. Smith'' ''0.9'',
        example_pair 2 ''J. Smith'' 3 ''Jane Doe'' ''0.6'',
        example_pair 1 ''John Smith'' 3 ''Jane Doe'' ''0.6'']"
    by (simp add: id_tie_break_order_def example_score_numbers) (simp add: example_pair_def)
  have twice: "\<not> distinct (map (\<lambda>r. {id1 r, id2 r})
       [example_pair 1 ''John Smith'' 2 ''J. Smith'' ''0.9'',
        example_pair 1 ''Jon Smith'' 2 ''J. Smith'' ''0.9''])"
    by (simp add: example_pair_def)
  have numbers: "\<not> sorted_wrt
         (\<lambda>a b. score_number example_engine_exponent b \<le> score_number example_engine_exponent a)
       [example_pair 2 ''J. Smith'' 3 ''Jane Doe'' ''5.5e-1'',
        example_pair 1 ''John Smith'' 3 ''Jane Doe'' ''5.5e-1'',
        example_pair 1 ''John Smith'' 2 ''J. Smith'' ''0.9'']"
    by (simp add: example_score_numbers)
  show ?thesis
    unfolding a b c example_fetch_duplicate_data_down
    using ties twice numbers
    by (simp add: duplicate_rows_of_def) (simp add: pair_summary_def example_pair_def)
qed

section \<open>Properties of golden record generation\<close>













lemma generate_golden_records_ok:
  assumes "reachable (wh s) (credentials_of user_token)"
    and "source_tables (wh s) (get_table_reference s ''main'') = Some tbl"
    and "golden_tables (wh s) (get_table_reference s ''golden'') = Some old_rows"
    and "golden_insert eng (get_ai_model_name s) (current_timestamp (wh s)) (next_identity (wh s)) tbl =
           Inr new_rows"
  shows "generate_golden_records eng user_token s =
    (True, s\<lparr>wh := (wh s)\<lparr>golden_tables := (golden_tables (wh s))
        (get_table_reference s ''golden'' \<mapsto> old_rows @ new_rows),
      next_identity := next_identity (wh s) + length new_rows\<rparr>\<rparr>)"
  using assms
  by (simp add: generate_golden_records_def run_query_credentials execute_def and_then_Inr Let_def)



lemma example_golden_ref:
  "get_table_reference (example_app tbl) ''golden'' = ''danny_catalog.healthcare_mdm_schema.patients_gold''"
  by (simp add: get_table_reference_def example_app_def example_config_def)

lemma example_app_golden_table:
  "golden_tables (wh (example_app tbl)) (get_table_reference (example_app tbl) ''golden'') = Some []"
  by (simp add: example_golden_ref) (simp add: example_app_def example_warehouse_def)

lemma example_app_now:
  "current_timestamp (wh (example_app tbl)) = 1000" "next_identity (wh (example_app tbl)) = 1"
  by (simp_all add: example_app_def example_warehouse_def)


lemma example_golden_insert:
  "golden_insert example_engine m 1000 1 example_patients = Inr [example_new_golden_row 1 ''1,2'']"
  by (simp add: golden_insert_def high_confidence_matches_def same_person_answer_def
      cross_join_lt_def example_patients_def example_patient_def same_person_prompt_def
      golden_prompt_def sql_concat_def example_engine_def example_oracle_def
      golden_insert_row_def source_ids_of_def store_as_def sql_str_def sql_double_def
      string_of_nat.simps example_new_golden_row_def and_then_def Let_def)



lemma example_generate_golden_records:
  "generate_golden_records example_engine None (example_app example_patients) =
     (True, (example_app example_patients)\<lparr>wh := (example_warehouse example_patients)
        \<lparr>golden_tables :=
           [''danny_catalog.healthcare_mdm_schema.patients_gold'' \<mapsto> [example_new_golden_row 1 ''1,2'']],
         next_identity := 2\<rparr>\<rparr>)"
proof -
  have ins: "golden_insert example_engine (get_ai_model_name (example_app example_patients))
      (current_timestamp (wh (example_app example_patients)))
      (next_identity (wh (example_app example_patients))) example_patients =
      Inr [example_new_golden_row 1 ''1,2'']"
    by (simp only: example_app_now example_golden_insert)
  show ?thesis
    unfolding generate_golden_records_ok
      [OF example_app_reachable example_app_table example_app_golden_table ins]
    by (simp add: example_golden_ref example_app_now) (simp add: example_app_def example_warehouse_def)
qed





section \<open>Properties of stewardship\<close>

subsection \<open>How the warehouse reads the statement of \<open>update_golden_record_status\<close>\<close>

lemma word_char_not_special: "is_word_char c \<Longrightarrow> \<not> is_space c \<and> c \<noteq> CHR 0x27"
  by (auto simp: is_word_char_def is_space_def)

lemma lex_word_run:
  "list_all is_word_char cs \<Longrightarrow> foldl lex_step (InWord w, toks) cs = (InWord (w @ cs), toks)"
  by (induction cs arbitrary: w) auto

lemma lex_start_word: "is_word_char c \<Longrightarrow> lex_start toks c = (InWord [c], toks)"
  using word_char_not_special [of c] by (simp add: lex_start_def)

lemma lex_word_start:
  "cs \<noteq> [] \<Longrightarrow> list_all is_word_char cs \<Longrightarrow> foldl lex_step (Between, toks) cs = (InWord cs, toks)"
  by (cases cs) (simp_all add: lex_start_word lex_word_run)

lemma lex_string_run:
  "sql_literal_safe v' \<Longrightarrow> foldl lex_step (InString v, toks) v' = (InString (v @ v'), toks)"
  unfolding sql_literal_safe_def by (induction v' arbitrary: v) auto

lemma lex_escaped_run:
  "backslash_free v' \<Longrightarrow>
   foldl lex_step (InString v, toks) (escape_quotes v') = (InString (v @ v'), toks)"
  unfolding backslash_free_def escape_quotes_def by (induction v' arbitrary: v) auto

lemma digit_is_word_char: "c \<in> set ''0123456789'' \<Longrightarrow> is_word_char c"
proof -
  have "set ''0123456789'' \<subseteq>
      set ''abcdefghijklmnopqrstuvwxyzABCDEFGHIJKLMNOPQRSTUVWXYZ0123456789_.''"
    by simp
  then show "c \<in> set ''0123456789'' \<Longrightarrow> is_word_char c"
    unfolding is_word_char_def by (rule subsetD)
qed

lemma digits_word_chars: "list_all is_word_char (string_of_nat n)"
  unfolding list_all_iff
  using string_of_nat_digits [of n] digit_is_word_char by blast

lemma lex_digits_start:
  "foldl lex_step (Between, toks) (string_of_nat n) = (InWord (string_of_nat n), toks)"
  by (rule lex_word_start [OF string_of_nat_not_empty digits_word_chars])

lemma sql_lex_update_status_query:
  assumes "table_ref \<noteq> []" and "list_all is_word_char table_ref"
    and "sql_literal_safe status" and "sql_literal_safe comments" and "sql_literal_safe approved_by"
  shows "sql_lex (update_status_query table_ref record_id status comments approved_by) =
    Some (status_update_tokens table_ref record_id status comments approved_by)"
  using assms
  by (simp add: sql_lex_def update_status_query_def quoted_def lex_word_start lex_string_run
      lex_digits_start lex_start_def is_space_def is_word_char_def status_update_tokens_def)

lemma parse_status_update_tokens:
  "parse_update (status_update_tokens table_ref record_id status comments approved_by) =
     Some \<lparr>upd_table = table_ref,
       upd_assignments =
         [(''steward_status'', ELit status), (''steward_comments'', ELit comments),
          (''approved_by'', ELit approved_by), (''approved_at'', ECurrentTimestamp),
          (''updated_at'', ECurrentTimestamp)],
       upd_where_column = ''golden_record_id'', upd_where_value = record_id\<rparr>"
  by (simp add: status_update_tokens_def parse_update_def parse_assignment_def parse_where_def
      nat_of_string_string_of_nat Let_def)

lemma run_status_update:
  assumes "golden_tables w table_ref = Some rows"
  shows "run_update eng \<lparr>upd_table = table_ref,
       upd_assignments =
         [(''steward_status'', ELit status), (''steward_comments'', ELit comments),
          (''approved_by'', ELit approved_by), (''approved_at'', ECurrentTimestamp),
          (''updated_at'', ECurrentTimestamp)],
       upd_where_column = ''golden_record_id'', upd_where_value = record_id\<rparr> w =
     Inr (StatementResult,
       w\<lparr>golden_tables := (golden_tables w)(table_ref \<mapsto>
         map (set_steward_columns record_id status comments approved_by (current_timestamp w)) rows)\<rparr>)"
proof -
  have "(if r ''golden_record_id'' = Some (SInt record_id)
         then r ++ map_of [(''steward_status'', SStr status), (''steward_comments'', SStr comments),
            (''approved_by'', SStr approved_by), (''approved_at'', STimestamp now),
            (''updated_at'', STimestamp now)]
         else r) = set_steward_columns record_id status comments approved_by now r" for r now
    by (auto simp: set_steward_columns_def fun_eq_iff map_add_def)
  then show ?thesis
    using assms
    by (simp add: run_update_def assignment_value_def golden_schema_def store_as_def and_then_def)
qed

lemma table_reference_not_empty: "get_table_reference s table_type \<noteq> []"
  by (simp add: get_table_reference_def Let_def)

text \<open>
  For texts without quote and backslash, on a reachable warehouse that has the golden
  table, the function does what the statement says: every row with the given id gets the
  five stewardship columns, and the function returns \<open>True\<close>.
\<close>

lemma update_golden_record_status_ok:
  assumes "reachable (wh s) (credentials_of user_token)"
    and "golden_tables (wh s) (get_table_reference s ''golden'') = Some rows"
    and "list_all is_word_char (get_table_reference s ''golden'')"
    and "sql_literal_safe status" and "sql_literal_safe comments" and "sql_literal_safe approved_by"
  shows "update_golden_record_status eng record_id status comments approved_by user_token s =
    (True, s\<lparr>wh := (wh s)\<lparr>golden_tables := (golden_tables (wh s))
       (get_table_reference s ''golden'' \<mapsto>
          map (set_steward_columns record_id status comments approved_by (current_timestamp (wh s)))
            rows)\<rparr>\<rparr>)"
  using assms(1,2)
  by (simp add: update_golden_record_status_def run_query_credentials execute_def run_sql_text_def
      sql_lex_update_status_query [OF table_reference_not_empty assms(3-6)]
      parse_status_update_tokens run_status_update Let_def)

lemma set_steward_columns_twice:
  "set_steward_columns i st2 c2 a2 now2 (set_steward_columns i st1 c1 a1 now1 r) =
   set_steward_columns i st2 c2 a2 now2 r"
  by (auto simp: set_steward_columns_def fun_eq_iff)

lemma set_steward_columns_frame:
  "col \<notin> {''steward_status'', ''steward_comments'', ''approved_by'', ''approved_at'', ''updated_at''}
     \<Longrightarrow> set_steward_columns record_id status comments approved_by now r col = r col"
  by (simp add: set_steward_columns_def)

lemma set_steward_columns_other_row:
  "r ''golden_record_id'' \<noteq> Some (SInt record_id)
     \<Longrightarrow> set_steward_columns record_id status comments approved_by now r = r"
  by (simp add: set_steward_columns_def)

subsection \<open>How the warehouse reads the statement of \<open>update_golden_record_with_steward_edits\<close>\<close>

lemma lex_set_clause_of:
  assumes "item_readable item"
  shows "lex_step (foldl lex_step (Between, toks) (set_clause_of item)) CHR '','' =
    (Between, toks @ item_tokens item @ [TSym CHR '',''])"
proof (cases item)
  case (Pair field "value")
  show ?thesis
  proof (cases "value")
    case None
    then show ?thesis
      using assms Pair
      by (simp add: item_readable_def set_clause_of_def item_tokens_def lex_word_start
          lex_start_def is_space_def is_word_char_def)
  next
    case (Some v)
    then show ?thesis
      using assms Pair
      by (simp add: item_readable_def set_clause_of_def item_tokens_def quoted_def lex_word_start
          lex_escaped_run lex_start_def is_space_def is_word_char_def)
  qed
qed

lemma lex_set_clause:
  assumes "items \<noteq> []" and "list_all item_readable items"
  shows "lex_step (foldl lex_step (Between, toks) (join_with '', '' (map set_clause_of items)))
      CHR '','' =
    (Between, toks @ concat (map (\<lambda>item. item_tokens item @ [TSym CHR '','']) items))"
  using assms
proof (induction items arbitrary: toks)
  case Nil
  then show ?case by simp
next
  case (Cons item items)
  show ?case
  proof (cases items)
    case Nil
    then show ?thesis
      using Cons.prems by (simp add: lex_set_clause_of)
  next
    case more: (Cons next_item rest)
    have "lex_step (foldl lex_step (Between, toks @ item_tokens item @ [TSym CHR '',''])
        (join_with '', '' (map set_clause_of items))) CHR '','' =
      (Between, (toks @ item_tokens item @ [TSym CHR '','']) @
         concat (map (\<lambda>item. item_tokens item @ [TSym CHR '','']) items))"
      using Cons.prems more by (intro Cons.IH) simp_all
    then show ?thesis
      using Cons.prems more
      by (simp add: lex_set_clause_of lex_start_def is_space_def)
  qed
qed

lemma sql_lex_steward_edits_query:
  assumes "table_ref \<noteq> []" and "list_all is_word_char table_ref"
    and "updated_data \<noteq> []" and "list_all item_readable updated_data"
    and "sql_literal_safe status" and "sql_literal_safe comments" and "sql_literal_safe approved_by"
  shows "sql_lex (steward_edits_query table_ref record_id updated_data status comments approved_by) =
    Some (steward_edits_tokens table_ref record_id updated_data status comments approved_by)"
  using assms
  by (simp add: sql_lex_def steward_edits_query_def quoted_def lex_word_start lex_string_run
      lex_digits_start lex_set_clause lex_start_def is_space_def is_word_char_def
      steward_edits_tokens_def Let_def)

lemma those_map_Some: "those (map Some xs) = Some xs"
  by (induction xs) simp_all

lemma those_append:
  "those (xs @ ys) =
     (case those xs of None \<Rightarrow> None | Some a \<Rightarrow> map_option (\<lambda>b. a @ b) (those ys))"
proof (induction xs)
  case Nil
  show ?case by (cases "those ys") simp_all
next
  case (Cons x xs)
  then show ?case by (cases x; cases "those xs"; cases "those ys") simp_all
qed

lemma split_on_items:
  assumes "\<And>item. item \<in> set items \<Longrightarrow> sep \<notin> set (g item)"
  shows "split_on sep (concat (map (\<lambda>item. g item @ [sep]) items) @ rest) =
    map g items @ split_on sep rest"
  using assms by (induction items) (simp_all add: split_on_append)

lemma parse_item_tokens: "parse_assignment (item_tokens item) = Some (item_expr item)"
  by (cases item) (simp add: parse_assignment_def item_tokens_def item_expr_def split: option.splits)

lemma item_tokens_no_where:
  assumes "list_all item_readable items"
  shows "\<forall>t \<in> set (concat (map (\<lambda>item. item_tokens item @ [TSym CHR '','']) items)).
    t \<noteq> TWord ''WHERE''"
  using assms
  by (auto simp: list_all_iff item_readable_def item_tokens_def split: option.splits)

lemma parse_steward_edits_tokens:
  assumes "list_all item_readable updated_data"
  shows "parse_update (steward_edits_tokens table_ref record_id updated_data status comments approved_by) =
     Some \<lparr>upd_table = table_ref,
       upd_assignments = map item_expr updated_data @ steward_assignments status comments approved_by,
       upd_where_column = ''golden_record_id'', upd_where_value = record_id\<rparr>"
proof -
  let ?items = "concat (map (\<lambda>item. item_tokens item @ [TSym CHR '','']) updated_data)"
  have no_where: "\<forall>t \<in> set ?items. t \<noteq> TWord ''WHERE''"
    by (rule item_tokens_no_where [OF assms])
  have no_comma: "TSym CHR '','' \<notin> set (item_tokens item)" for item
    by (cases item) (simp add: item_tokens_def split: option.splits)
  have split: "split_on (TSym CHR '','') (?items @ rest) =
      map item_tokens updated_data @ split_on (TSym CHR '','') rest" for rest
    by (rule split_on_items) (rule no_comma)
  have parsed: "map parse_assignment (map item_tokens updated_data) =
      map Some (map item_expr updated_data)"
    by (simp add: parse_item_tokens)
  have set_part: "takeWhile (\<lambda>t. t \<noteq> TWord ''WHERE'') (?items @ rest) =
      ?items @ takeWhile (\<lambda>t. t \<noteq> TWord ''WHERE'') rest" for rest
    using no_where by (intro takeWhile_append2) blast
  have where_part: "dropWhile (\<lambda>t. t \<noteq> TWord ''WHERE'') (?items @ rest) =
      dropWhile (\<lambda>t. t \<noteq> TWord ''WHERE'') rest" for rest
    using no_where by (intro dropWhile_append2) blast
  show ?thesis
    unfolding steward_edits_tokens_def parse_update_def
    by (simp add: set_part where_part split parsed those_append those_map_Some
        parse_assignment_def parse_where_def nat_of_string_string_of_nat steward_assignments_def
        Let_def del: map_map)
qed


lemma steward_assignment_values:
  "try_all (map (assignment_value eng now) (steward_assignments status comments approved_by)) =
     Inr (steward_values status comments approved_by now)"
  by (simp add: steward_assignments_def steward_values_def assignment_value_def golden_schema_def
      store_as_def and_then_def)

lemma try_all_append_Inr:
  "try_all xs = Inr a \<Longrightarrow> try_all ys = Inr b \<Longrightarrow> try_all (xs @ ys) = Inr (a @ b)"
  by (simp add: try_all_Inr_iff)

lemma assignment_value_column:
  assumes "assignment_value eng now a = Inr v"
  shows "fst v = fst a \<and> fst a \<noteq> ''golden_record_id''"
  using assms
  by (cases a) (auto simp: assignment_value_def and_then_Inr_iff split: option.splits if_splits sql_expr.splits)

lemma assignment_values_columns:
  assumes "try_all (map (assignment_value eng now) assignments) = Inr vals"
  shows "''golden_record_id'' \<notin> fst ` set vals"
proof
  assume "''golden_record_id'' \<in> fst ` set vals"
  then obtain v where mem: "v \<in> set vals" and col: "fst v = ''golden_record_id''"
    by auto
  obtain a where "assignment_value eng now a = Inr v"
    using list_all2_right_mem [OF try_all_map_Inr [OF assms] mem] by blast
  then have "fst v = fst a" and "fst a \<noteq> ''golden_record_id''"
    using assignment_value_column [of eng now a v] by simp_all
  then show False
    using col by simp
qed

lemma steward_after_edited_columns:
  assumes "''golden_record_id'' \<notin> fst ` set vals"
    and "list_all (\<lambda>v. fst v \<notin> {''steward_status'', ''steward_comments'', ''approved_by'',
           ''approved_at'', ''updated_at''}) vals"
  shows "(if r ''golden_record_id'' = Some (SInt record_id)
          then r ++ map_of (vals @ steward_values status comments approved_by now) else r) =
    set_steward_columns record_id status comments approved_by now (set_edited_columns record_id vals r)"
proof -
  have id: "map_of vals ''golden_record_id'' = None"
    using assms(1) by (simp add: map_of_eq_None_iff)
  have none: "map_of vals ''steward_status'' = None" "map_of vals ''steward_comments'' = None"
    "map_of vals ''approved_by'' = None" "map_of vals ''approved_at'' = None"
    "map_of vals ''updated_at'' = None"
    using assms(2) by (auto simp: map_of_eq_None_iff list_all_iff)
  show ?thesis
    using id none
    by (auto simp: set_steward_columns_def set_edited_columns_def steward_values_def fun_eq_iff
        map_add_def split: option.splits)
qed

lemma run_steward_edits:
  assumes "golden_tables w table_ref = Some rows"
    and "try_all (map (assignment_value eng (current_timestamp w)) (map item_expr updated_data)) =
           Inr vals"
    and "distinct (map fst vals)"
    and "list_all (\<lambda>v. fst v \<notin> {''steward_status'', ''steward_comments'', ''approved_by'',
           ''approved_at'', ''updated_at''}) vals"
  shows "run_update eng \<lparr>upd_table = table_ref,
       upd_assignments = map item_expr updated_data @ steward_assignments status comments approved_by,
       upd_where_column = ''golden_record_id'', upd_where_value = record_id\<rparr> w =
     Inr (StatementResult,
       w\<lparr>golden_tables := (golden_tables w)(table_ref \<mapsto>
         map (\<lambda>r. set_steward_columns record_id status comments approved_by (current_timestamp w)
                    (set_edited_columns record_id vals r)) rows)\<rparr>)"
proof -
  let ?now = "current_timestamp w"
  have all: "try_all (map (assignment_value eng ?now)
      (map item_expr updated_data @ steward_assignments status comments approved_by)) =
      Inr (vals @ steward_values status comments approved_by ?now)"
    unfolding map_append by (rule try_all_append_Inr [OF assms(2) steward_assignment_values])
  have dist: "distinct (map fst (vals @ steward_values status comments approved_by ?now))"
    using assms(3,4) by (auto simp: steward_values_def list_all_iff)
  have cols: "''golden_record_id'' \<notin> fst ` set vals"
    by (rule assignment_values_columns [OF assms(2)])
  show ?thesis
    using assms(1) dist
    by (simp add: run_update_def all golden_schema_def
        steward_after_edited_columns [OF cols assms(4)] del: map_append)
qed

text \<open>
  For items that the warehouse reads as assignments, whose values it can store and whose
  columns are distinct and none of the five stewardship columns, the function does what
  the statement says: every row with the given id gets the values of the items and then
  the five stewardship columns, and the function returns \<open>True\<close>.
\<close>

lemma update_golden_record_with_steward_edits_ok:
  assumes "reachable (wh s) (credentials_of user_token)"
    and "golden_tables (wh s) (get_table_reference s ''golden'') = Some rows"
    and "list_all is_word_char (get_table_reference s ''golden'')"
    and "updated_data \<noteq> []" and "list_all item_readable updated_data"
    and "sql_literal_safe status" and "sql_literal_safe comments" and "sql_literal_safe approved_by"
    and "try_all (map (assignment_value eng (current_timestamp (wh s))) (map item_expr updated_data)) =
           Inr vals"
    and "distinct (map fst vals)"
    and "list_all (\<lambda>v. fst v \<notin> {''steward_status'', ''steward_comments'', ''approved_by'',
           ''approved_at'', ''updated_at''}) vals"
  shows "update_golden_record_with_steward_edits eng record_id updated_data status comments
      approved_by user_token s =
    (True, s\<lparr>wh := (wh s)\<lparr>golden_tables := (golden_tables (wh s))
       (get_table_reference s ''golden'' \<mapsto>
          map (\<lambda>r. set_steward_columns record_id status comments approved_by
                     (current_timestamp (wh s)) (set_edited_columns record_id vals r))
            rows)\<rparr>\<rparr>)"
  using assms(1)
  by (simp add: update_golden_record_with_steward_edits_def run_query_credentials execute_def
      run_sql_text_def
      sql_lex_steward_edits_query [OF table_reference_not_empty assms(3-8)]
      parse_steward_edits_tokens [OF assms(5)]
      run_steward_edits [OF assms(2,9,10,11)] Let_def)

subsection \<open>The two buttons of the stewardship interface\<close>

lemma field_keys_columns:
  "list_all (\<lambda>k. k \<noteq> [] \<and> list_all is_word_char k \<and> k \<noteq> ''WHERE'' \<and> k \<noteq> ''golden_record_id''
      \<and> map_of golden_schema k = Some (if k = ''date_of_birth'' then DATE else STRING)
      \<and> k \<notin> {''steward_status'', ''steward_comments'', ''approved_by'', ''approved_at'',
               ''updated_at''}) field_keys"
  by (simp add: field_keys_def golden_schema_def is_word_char_def)

lemma distinct_field_keys: "distinct field_keys"
  by (simp add: field_keys_def)

lemma updated_golden_record_not_empty: "updated_golden_record edited_value \<noteq> []"
  by (simp add: updated_golden_record_def field_keys_def)

lemma updated_golden_record_readable:
  assumes "list_all (\<lambda>k. backslash_free (edited_value k)) field_keys"
  shows "list_all item_readable (updated_golden_record edited_value)"
  using assms field_keys_columns
  by (auto simp: updated_golden_record_def list_all_iff item_readable_def)

lemma edited_assignment_value:
  assumes "k \<in> set field_keys"
    and "edited_value ''date_of_birth'' = [] \<or>
         (case cast_literal eng DATE (edited_value ''date_of_birth'') of
            Inr d \<Rightarrow> True | Inl e \<Rightarrow> False)"
  shows "assignment_value eng now
      (item_expr (k, if edited_value k \<noteq> [] then Some (edited_value k) else None)) =
    Inr (edited_column eng edited_value k)"
proof -
  have col: "k \<noteq> ''golden_record_id''"
    "map_of golden_schema k = Some (if k = ''date_of_birth'' then DATE else STRING)"
    using assms(1) field_keys_columns by (auto simp: list_all_iff)
  show ?thesis
    using assms(2) col
    by (auto simp: assignment_value_def item_expr_def edited_column_def store_as_def and_then_def
        split: sum.splits)
qed

lemma edited_assignment_values:
  assumes "edited_value ''date_of_birth'' = [] \<or>
         (case cast_literal eng DATE (edited_value ''date_of_birth'') of
            Inr d \<Rightarrow> True | Inl e \<Rightarrow> False)"
  shows "try_all (map (assignment_value eng now) (map item_expr (updated_golden_record edited_value))) =
    Inr (map (edited_column eng edited_value) field_keys)"
proof -
  have "assignment_value eng now
      (item_expr (k, if edited_value k \<noteq> [] then Some (edited_value k) else None)) =
    Inr (edited_column eng edited_value k)" if "k \<in> set field_keys" for k
    using that assms by (rule edited_assignment_value)
  then show ?thesis
    by (simp add: try_all_Inr_iff updated_golden_record_def)
qed

lemma edited_columns_names:
  "map fst (map (edited_column eng edited_value) field_keys) = field_keys"
  by (simp add: edited_column_def comp_def)

lemma decision_effect_approve:
  "decision_effect eng record_id (Approve edited_value comments) steward_name now =
     (\<lambda>r. set_steward_columns record_id ''approved''
            (if comments \<noteq> [] then comments else ''Approved with steward edits'') steward_name now
            (set_edited_columns record_id (map (edited_column eng edited_value) field_keys) r))"
  by (simp add: fun_eq_iff decision_effect_def decision_status_def decision_comments_def)

lemma decision_effect_reject:
  "decision_effect eng record_id (Reject comments) steward_name now =
     set_steward_columns record_id ''rejected'' comments steward_name now"
  by (simp add: fun_eq_iff decision_effect_def decision_status_def decision_comments_def)

lemma approve_button_ok:
  assumes "reachable (wh s) (credentials_of user_token)"
    and "golden_tables (wh s) (get_table_reference s ''golden'') = Some rows"
    and "list_all is_word_char (get_table_reference s ''golden'')"
    and "decision_readable eng (Approve edited_value comments)"
    and "sql_literal_safe steward_name"
  shows "approve_button eng record_id edited_value comments steward_name user_token s =
    st_success
      (s\<lparr>wh := (wh s)\<lparr>golden_tables := (golden_tables (wh s))
         (get_table_reference s ''golden'' \<mapsto>
            map (decision_effect eng record_id (Approve edited_value comments) steward_name
                  (current_timestamp (wh s))) rows)\<rparr>\<rparr>)
      ''Golden record approved with your edits!''"
proof -
  let ?comments = "if comments \<noteq> [] then comments else ''Approved with steward edits''"
  let ?vals = "map (edited_column eng edited_value) field_keys"
  have readable: "list_all item_readable (updated_golden_record edited_value)"
    using assms(4) by (intro updated_golden_record_readable) (simp add: decision_readable_def)
  have comments: "sql_literal_safe ?comments"
    using assms(4) by (simp add: decision_readable_def sql_literal_safe_def)
  have status: "sql_literal_safe ''approved''"
    by (simp add: sql_literal_safe_def)
  have vals: "try_all (map (assignment_value eng (current_timestamp (wh s)))
      (map item_expr (updated_golden_record edited_value))) = Inr ?vals"
    using assms(4) by (intro edited_assignment_values) (simp add: decision_readable_def)
  have dist: "distinct (map fst ?vals)"
    by (simp only: edited_columns_names distinct_field_keys)
  have others: "list_all (\<lambda>v. fst v \<notin> {''steward_status'', ''steward_comments'', ''approved_by'',
           ''approved_at'', ''updated_at''}) ?vals"
    using field_keys_columns by (simp add: list_all_iff edited_column_def)
  show ?thesis
    unfolding approve_button_def
      update_golden_record_with_steward_edits_ok [OF assms(1-3) updated_golden_record_not_empty
        readable status comments assms(5) vals dist others]
    by (simp add: decision_effect_approve)
qed

lemma reject_button_ok:
  assumes "reachable (wh s) (credentials_of user_token)"
    and "golden_tables (wh s) (get_table_reference s ''golden'') = Some rows"
    and "list_all is_word_char (get_table_reference s ''golden'')"
    and "decision_readable eng (Reject comments)"
    and "sql_literal_safe steward_name"
  shows "reject_button eng record_id comments steward_name user_token s =
    st_success
      (s\<lparr>wh := (wh s)\<lparr>golden_tables := (golden_tables (wh s))
         (get_table_reference s ''golden'' \<mapsto>
            map (decision_effect eng record_id (Reject comments) steward_name
                  (current_timestamp (wh s))) rows)\<rparr>\<rparr>)
      ''Record rejected!''"
proof -
  have comments: "comments \<noteq> []" "sql_literal_safe comments"
    using assms(4) by (simp_all add: decision_readable_def)
  have status: "sql_literal_safe ''rejected''"
    by (simp add: sql_literal_safe_def)
  show ?thesis
    unfolding reject_button_def
      update_golden_record_status_ok [OF assms(1-3) status comments(2) assms(5)]
    using comments(1)
    by (simp add: decision_effect_reject)
qed

lemma press_button_ok:
  assumes "reachable (wh s) (credentials_of user_token)"
    and "golden_tables (wh s) (get_table_reference s ''golden'') = Some rows"
    and "list_all is_word_char (get_table_reference s ''golden'')"
    and "decision_readable eng d"
    and "sql_literal_safe steward_name"
  shows "press_button eng record_id d steward_name user_token s =
    st_success
      (s\<lparr>wh := (wh s)\<lparr>golden_tables := (golden_tables (wh s))
         (get_table_reference s ''golden'' \<mapsto>
            map (decision_effect eng record_id d steward_name (current_timestamp (wh s))) rows)\<rparr>\<rparr>)
      (decision_message d)"
proof (cases d)
  case (Approve edited_value comments)
  then show ?thesis
    using approve_button_ok [OF assms(1-3) _ assms(5), of eng edited_value comments record_id] assms(4)
    by (simp add: press_button_def decision_message_def)
next
  case (Reject comments)
  then show ?thesis
    using reject_button_ok [OF assms(1-3) _ assms(5), of eng comments record_id] assms(4)
    by (simp add: press_button_def decision_message_def)
qed

lemma decision_effect_id:
  "decision_effect eng record_id d steward_name now r ''golden_record_id'' = r ''golden_record_id''"
proof -
  have "''golden_record_id'' \<notin> set field_keys"
    by (simp add: field_keys_def)
  then have "map_of (map (edited_column eng edited_value) field_keys) ''golden_record_id'' = None"
    for edited_value
    by (simp add: map_of_eq_None_iff edited_column_def image_iff)
  then show ?thesis
    by (cases d)
      (simp_all add: decision_effect_def set_steward_columns_def set_edited_columns_def map_add_def)
qed

lemma decision_effect_status:
  assumes "r ''golden_record_id'' = Some (SInt record_id)"
  shows "decision_effect eng record_id d steward_name now r ''steward_status'' =
    Some (SStr (decision_status d))"
proof -
  have "''golden_record_id'' \<notin> set field_keys"
    by (simp add: field_keys_def)
  then have "map_of (map (edited_column eng edited_value) field_keys) ''golden_record_id'' = None"
    for edited_value
    by (simp add: map_of_eq_None_iff edited_column_def image_iff)
  then show ?thesis
    using assms
    by (cases d)
      (simp_all add: decision_effect_def set_steward_columns_def set_edited_columns_def map_add_def)
qed

subsection \<open>Status transitions\<close>

lemma example_steward_reachable: "reachable (wh example_steward_app) cred"
  by (simp add: example_steward_app_def example_warehouse_def)

lemma example_steward_ref:
  "get_table_reference example_steward_app ''golden'' =
     ''danny_catalog.healthcare_mdm_schema.patients_gold''"
  by (simp add: get_table_reference_def example_steward_app_def example_app_def example_config_def)

lemma example_steward_table:
  "golden_tables (wh example_steward_app) (get_table_reference example_steward_app ''golden'') =
     Some [example_golden_row]"
  by (simp add: example_steward_ref) (simp add: example_steward_app_def)

lemma example_steward_ref_words:
  "list_all is_word_char (get_table_reference example_steward_app ''golden'')"
  by (simp add: example_steward_ref is_word_char_def)

lemma example_steward_status:
  "golden_column example_steward_app ''danny_catalog.healthcare_mdm_schema.patients_gold''
     ''steward_status'' = [Some (SStr ''pending'')]"
  by (simp add: golden_column_def example_steward_app_def example_golden_row_def)

lemma example_steward_now: "current_timestamp (wh example_steward_app) = 1000"
  by (simp add: example_steward_app_def example_warehouse_def)

lemma example_steward_messages: "messages example_steward_app = []"
  by (simp add: example_steward_app_def example_app_def)

lemma example_decisions_readable:
  "decision_readable example_engine (Approve example_edits ''same person'')"
  "decision_readable example_engine (Reject ''changed my mind'')"
  "sql_literal_safe ''Data Steward''" "sql_literal_safe ''Another Steward''"
  by (simp_all add: decision_readable_def sql_literal_safe_def backslash_free_def field_keys_def
      example_edits_def example_engine_def)

lemma example_approved_row:
  "decision_effect example_engine 1 (Approve example_edits ''same person'') ''Data Steward'' 1000
     example_golden_row ''steward_status'' = Some (SStr ''approved'')"
  "decision_effect example_engine 1 (Approve example_edits ''same person'') ''Data Steward'' 1000
     example_golden_row ''patient_name'' = Some (SStr ''John O'Smith'')"
  "decision_effect example_engine 1 (Approve example_edits ''same person'') ''Data Steward'' 1000
     example_golden_row ''date_of_birth'' = Some (SDate ''1980-01-01'')"
  "decision_effect example_engine 1 (Approve example_edits ''same person'') ''Data Steward'' 1000
     example_golden_row ''phone'' = Some SNull"
  by (simp_all add: decision_effect_def decision_status_def decision_comments_def
      set_steward_columns_def set_edited_columns_def edited_column_def field_keys_def
      example_edits_def example_engine_def example_golden_row_def)

lemma example_rejected_row:
  "decision_effect example_engine 1 (Reject ''changed my mind'') ''Another Steward'' 1000
     (decision_effect example_engine 1 (Approve example_edits ''same person'') ''Data Steward'' 1000
        example_golden_row) ''steward_status'' = Some (SStr ''rejected'')"
proof -
  have "decision_effect example_engine 1 (Approve example_edits ''same person'') ''Data Steward''
      1000 example_golden_row ''golden_record_id'' = Some (SInt 1)"
    by (simp add: decision_effect_id example_golden_row_def)
  then show ?thesis
    using decision_effect_status [where d = "Reject ''changed my mind''"]
    by (simp add: decision_status_def)
qed

text \<open>
  C3, as the code has it. Approve is the approve button, which sends the statement of
  \<open>update_golden_record_with_steward_edits\<close> with the status \<open>approved\<close>; reject is the
  reject button, which sends the statement of \<open>update_golden_record_status\<close> with the
  status \<open>rejected\<close>. Neither statement reads the current status. On a reachable
  warehouse that has the golden table, a decision whose texts the warehouse reads as the
  source means them succeeds whatever the status of the record is: the button reports
  success and every row with the id gets the values of the decision. A second decision on
  the same id succeeds as well: it reports success, and its status, comments, reviewer and
  timestamps replace those of the first one. The code has no state-conflict error.
\<close>

theorem stewardship_transitions:
  assumes "reachable (wh s) (credentials_of user_token)"
    and "golden_tables (wh s) (get_table_reference s ''golden'') = Some rows"
    and "list_all is_word_char (get_table_reference s ''golden'')"
    and "decision_readable eng d1" and "sql_literal_safe steward1"
    and "decision_readable eng d2" and "sql_literal_safe steward2"
    and "s1 = press_button eng record_id d1 steward1 user_token s"
    and "s2 = press_button eng record_id d2 steward2 user_token s1"
    and "now = current_timestamp (wh s)"
  shows "messages s1 = messages s @ [Success (decision_message d1)]
    \<and> golden_tables (wh s1) (get_table_reference s ''golden'') =
        Some (map (decision_effect eng record_id d1 steward1 now) rows)
    \<and> messages s2 = messages s @ [Success (decision_message d1), Success (decision_message d2)]
    \<and> golden_tables (wh s2) (get_table_reference s ''golden'') =
        Some (map (\<lambda>r. decision_effect eng record_id d2 steward2 now
                         (decision_effect eng record_id d1 steward1 now r)) rows)
    \<and> list_all (\<lambda>r. r ''golden_record_id'' = Some (SInt record_id) \<longrightarrow>
          decision_effect eng record_id d1 steward1 now r ''steward_status'' =
            Some (SStr (decision_status d1))
          \<and> decision_effect eng record_id d2 steward2 now
              (decision_effect eng record_id d1 steward1 now r) ''steward_status'' =
            Some (SStr (decision_status d2))) rows"
proof -
  let ?ref = "get_table_reference s ''golden''"
  let ?rows1 = "map (decision_effect eng record_id d1 steward1 now) rows"
  let ?t1 = "s\<lparr>wh := (wh s)\<lparr>golden_tables := (golden_tables (wh s))(?ref \<mapsto> ?rows1)\<rparr>\<rparr>"
  have first: "s1 = st_success ?t1 (decision_message d1)"
    unfolding assms(8,10) by (rule press_button_ok [OF assms(1-5)])
  have ref1: "get_table_reference s1 ''golden'' = ?ref"
    by (simp add: first get_table_reference_def st_success_def)
  have reach1: "reachable (wh s1) (credentials_of user_token)"
    using assms(1) by (simp add: first st_success_def)
  have table1: "golden_tables (wh s1) (get_table_reference s1 ''golden'') = Some ?rows1"
    unfolding ref1 by (simp add: first st_success_def)
  have words1: "list_all is_word_char (get_table_reference s1 ''golden'')"
    unfolding ref1 by (rule assms(3))
  have now1: "current_timestamp (wh s1) = now"
    by (simp add: first st_success_def assms(10))
  have second: "s2 = st_success
      (s1\<lparr>wh := (wh s1)\<lparr>golden_tables := (golden_tables (wh s1))
         (?ref \<mapsto> map (decision_effect eng record_id d2 steward2 now) ?rows1)\<rparr>\<rparr>)
      (decision_message d2)"
    unfolding assms(9)
    using press_button_ok [OF reach1 table1 words1 assms(6,7), of record_id]
    by (simp only: ref1 now1)
  have status: "list_all (\<lambda>r. r ''golden_record_id'' = Some (SInt record_id) \<longrightarrow>
          decision_effect eng record_id d1 steward1 now r ''steward_status'' =
            Some (SStr (decision_status d1))
          \<and> decision_effect eng record_id d2 steward2 now
              (decision_effect eng record_id d1 steward1 now r) ''steward_status'' =
            Some (SStr (decision_status d2))) rows"
    by (simp add: list_all_iff decision_effect_status decision_effect_id)
  have msgs1: "messages s1 = messages s @ [Success (decision_message d1)]"
    by (simp add: first st_success_def)
  have tbl1: "golden_tables (wh s1) ?ref = Some ?rows1"
    by (simp add: first st_success_def)
  have msgs2: "messages s2 = messages s @ [Success (decision_message d1), Success (decision_message d2)]"
    by (simp add: second st_success_def msgs1)
  have tbl2: "golden_tables (wh s2) ?ref =
      Some (map (\<lambda>r. decision_effect eng record_id d2 steward2 now
                       (decision_effect eng record_id d1 steward1 now r)) rows)"
    by (simp add: second st_success_def comp_def)
  show ?thesis
    using msgs1 tbl1 msgs2 tbl2 status by (intro conjI)
qed

theorem stewardship_transitions_witness:
  "golden_column example_steward_app ''danny_catalog.healthcare_mdm_schema.patients_gold''
     ''steward_status'' = [Some (SStr ''pending'')]
   \<and> messages (press_button example_engine 1 (Approve example_edits ''same person'')
        ''Data Steward'' None example_steward_app) =
      [Success ''Golden record approved with your edits!'']
   \<and> golden_column
        (press_button example_engine 1 (Approve example_edits ''same person'') ''Data Steward''
           None example_steward_app)
        ''danny_catalog.healthcare_mdm_schema.patients_gold'' ''steward_status'' =
      [Some (SStr ''approved'')]
   \<and> golden_column
        (press_button example_engine 1 (Approve example_edits ''same person'') ''Data Steward''
           None example_steward_app)
        ''danny_catalog.healthcare_mdm_schema.patients_gold'' ''patient_name'' =
      [Some (SStr ''John O'Smith'')]
   \<and> messages
        (press_button example_engine 1 (Reject ''changed my mind'') ''Another Steward'' None
           (press_button example_engine 1 (Approve example_edits ''same person'') ''Data Steward''
              None example_steward_app)) =
      [Success ''Golden record approved with your edits!'', Success ''Record rejected!'']
   \<and> golden_column
        (press_button example_engine 1 (Reject ''changed my mind'') ''Another Steward'' None
           (press_button example_engine 1 (Approve example_edits ''same person'') ''Data Steward''
              None example_steward_app))
        ''danny_catalog.healthcare_mdm_schema.patients_gold'' ''steward_status'' =
      [Some (SStr ''rejected'')]"
proof -
  note run = stewardship_transitions [OF example_steward_reachable example_steward_table
      example_steward_ref_words example_decisions_readable(1,3) example_decisions_readable(2,4)
      refl refl refl, where record_id = 1 and user_token = None]
  have msgs1: "messages (press_button example_engine 1 (Approve example_edits ''same person'')
        ''Data Steward'' None example_steward_app) =
      [Success ''Golden record approved with your edits!'']"
    using run [THEN conjunct1] by (simp add: example_steward_messages decision_message_def)
  have tbl1: "golden_tables (wh (press_button example_engine 1 (Approve example_edits ''same person'')
        ''Data Steward'' None example_steward_app))
        ''danny_catalog.healthcare_mdm_schema.patients_gold'' =
      Some [decision_effect example_engine 1 (Approve example_edits ''same person'')
              ''Data Steward'' 1000 example_golden_row]"
    using run [THEN conjunct2, THEN conjunct1]
    by (simp only: example_steward_ref example_steward_now list.map)
  have msgs2: "messages
        (press_button example_engine 1 (Reject ''changed my mind'') ''Another Steward'' None
           (press_button example_engine 1 (Approve example_edits ''same person'') ''Data Steward''
              None example_steward_app)) =
      [Success ''Golden record approved with your edits!'', Success ''Record rejected!'']"
    using run [THEN conjunct2, THEN conjunct2, THEN conjunct1]
    by (simp add: example_steward_messages decision_message_def)
  have tbl2: "golden_tables (wh
        (press_button example_engine 1 (Reject ''changed my mind'') ''Another Steward'' None
           (press_button example_engine 1 (Approve example_edits ''same person'') ''Data Steward''
              None example_steward_app)))
        ''danny_catalog.healthcare_mdm_schema.patients_gold'' =
      Some [decision_effect example_engine 1 (Reject ''changed my mind'') ''Another Steward'' 1000
             (decision_effect example_engine 1 (Approve example_edits ''same person'')
                ''Data Steward'' 1000 example_golden_row)]"
    using run [THEN conjunct2, THEN conjunct2, THEN conjunct2, THEN conjunct1]
    by (simp only: example_steward_ref example_steward_now list.map)
  show ?thesis
    by (simp only: golden_column_def tbl1 tbl2 msgs1 msgs2 option.case list.map
        example_approved_row example_rejected_row example_steward_status [unfolded golden_column_def])
qed

lemma example_approve_button:
  "approve_button example_engine 1 example_edits ''same person'' ''Data Steward'' None
     example_steward_app =
   st_success
     (example_steward_app\<lparr>wh := (wh example_steward_app)\<lparr>golden_tables :=
        [''danny_catalog.healthcare_mdm_schema.patients_gold'' \<mapsto>
           [decision_effect example_engine 1 (Approve example_edits ''same person'')
              ''Data Steward'' 1000 example_golden_row]]\<rparr>\<rparr>)
     ''Golden record approved with your edits!''"
  unfolding approve_button_ok [OF example_steward_reachable example_steward_table
      example_steward_ref_words example_decisions_readable(1,3)]
  by (simp add: example_steward_ref example_steward_now) (simp add: example_steward_app_def)

lemma example_reject_after_approve:
  "reject_button example_engine 1 ''changed my mind'' ''Another Steward'' None
     (approve_button example_engine 1 example_edits ''same person'' ''Data Steward'' None
        example_steward_app) =
   st_success
     (st_success
        (example_steward_app\<lparr>wh := (wh example_steward_app)\<lparr>golden_tables :=
           [''danny_catalog.healthcare_mdm_schema.patients_gold'' \<mapsto>
              [decision_effect example_engine 1 (Reject ''changed my mind'') ''Another Steward'' 1000
                 (decision_effect example_engine 1 (Approve example_edits ''same person'')
                    ''Data Steward'' 1000 example_golden_row)]]\<rparr>\<rparr>)
        ''Golden record approved with your edits!'')
     ''Record rejected!''"
proof -
  let ?s1 = "approve_button example_engine 1 example_edits ''same person'' ''Data Steward'' None
        example_steward_app"
  have ref: "get_table_reference ?s1 ''golden'' = ''danny_catalog.healthcare_mdm_schema.patients_gold''"
    unfolding example_approve_button
    by (simp add: get_table_reference_def st_success_def example_steward_app_def example_app_def
        example_config_def)
  have reach: "reachable (wh ?s1) (credentials_of None)"
    unfolding example_approve_button
    by (simp add: st_success_def example_steward_app_def example_warehouse_def)
  have table: "golden_tables (wh ?s1) (get_table_reference ?s1 ''golden'') =
      Some [decision_effect example_engine 1 (Approve example_edits ''same person'')
              ''Data Steward'' 1000 example_golden_row]"
    unfolding ref unfolding example_approve_button by (simp add: st_success_def)
  have words: "list_all is_word_char (get_table_reference ?s1 ''golden'')"
    unfolding ref by (simp add: is_word_char_def)
  have now: "current_timestamp (wh ?s1) = 1000"
    unfolding example_approve_button by (simp add: st_success_def example_steward_now)
  have "reject_button example_engine 1 ''changed my mind'' ''Another Steward'' None ?s1 =
    st_success
      (?s1\<lparr>wh := (wh ?s1)\<lparr>golden_tables := (golden_tables (wh ?s1))
         (get_table_reference ?s1 ''golden'' \<mapsto>
            map (decision_effect example_engine 1 (Reject ''changed my mind'') ''Another Steward''
                  (current_timestamp (wh ?s1)))
              [decision_effect example_engine 1 (Approve example_edits ''same person'')
                 ''Data Steward'' 1000 example_golden_row])\<rparr>\<rparr>)
      ''Record rejected!''"
    by (rule reject_button_ok [OF reach table words example_decisions_readable(2,4)])
  also have "\<dots> = st_success
     (st_success
        (example_steward_app\<lparr>wh := (wh example_steward_app)\<lparr>golden_tables :=
           [''danny_catalog.healthcare_mdm_schema.patients_gold'' \<mapsto>
              [decision_effect example_engine 1 (Reject ''changed my mind'') ''Another Steward'' 1000
                 (decision_effect example_engine 1 (Approve example_edits ''same person'')
                    ''Data Steward'' 1000 example_golden_row)]]\<rparr>\<rparr>)
        ''Golden record approved with your edits!'')
     ''Record rejected!''"
    unfolding ref now list.map unfolding example_approve_button by (simp add: st_success_def)
  finally show ?thesis .
qed

lemma example_approve_table:
  "golden_tables
     (wh (approve_button example_engine 1 example_edits ''same person'' ''Data Steward'' None
            example_steward_app))
     ''danny_catalog.healthcare_mdm_schema.patients_gold'' =
   Some [decision_effect example_engine 1 (Approve example_edits ''same person'')
           ''Data Steward'' 1000 example_golden_row]"
  unfolding example_approve_button by (simp add: st_success_def)

lemma example_reject_table:
  "golden_tables
     (wh (reject_button example_engine 1 ''changed my mind'' ''Another Steward'' None
            (approve_button example_engine 1 example_edits ''same person'' ''Data Steward'' None
               example_steward_app)))
     ''danny_catalog.healthcare_mdm_schema.patients_gold'' =
   Some [decision_effect example_engine 1 (Reject ''changed my mind'') ''Another Steward'' 1000
           (decision_effect example_engine 1 (Approve example_edits ''same person'')
              ''Data Steward'' 1000 example_golden_row)]"
  unfolding example_reject_after_approve by (simp add: st_success_def)

text \<open>
  C3, as stated, asks that a transition on an approved record fail and leave the status
  unchanged. The pending record 1 is approved with the approve button; the reject button
  on the same record then reports success and leaves it rejected.
\<close>

theorem second_transition_counterexample:
  "golden_column example_steward_app ''danny_catalog.healthcare_mdm_schema.patients_gold''
     ''steward_status'' = [Some (SStr ''pending'')]
   \<and> golden_column
        (approve_button example_engine 1 example_edits ''same person'' ''Data Steward'' None
           example_steward_app)
        ''danny_catalog.healthcare_mdm_schema.patients_gold'' ''steward_status'' =
      [Some (SStr ''approved'')]
   \<and> golden_column
        (reject_button example_engine 1 ''changed my mind'' ''Another Steward'' None
           (approve_button example_engine 1 example_edits ''same person'' ''Data Steward'' None
              example_steward_app))
        ''danny_catalog.healthcare_mdm_schema.patients_gold'' ''steward_status'' =
      [Some (SStr ''rejected'')]
   \<and> messages
        (reject_button example_engine 1 ''changed my mind'' ''Another Steward'' None
           (approve_button example_engine 1 example_edits ''same person'' ''Data Steward'' None
              example_steward_app)) =
      [Success ''Golden record approved with your edits!'', Success ''Record rejected!'']"
proof -
  have approved: "golden_column
        (approve_button example_engine 1 example_edits ''same person'' ''Data Steward'' None
           example_steward_app)
        ''danny_catalog.healthcare_mdm_schema.patients_gold'' ''steward_status'' =
      [Some (SStr ''approved'')]"
    by (simp only: golden_column_def example_approve_table option.case list.map
        example_approved_row)
  have rejected: "golden_column
        (reject_button example_engine 1 ''changed my mind'' ''Another Steward'' None
           (approve_button example_engine 1 example_edits ''same person'' ''Data Steward'' None
              example_steward_app))
        ''danny_catalog.healthcare_mdm_schema.patients_gold'' ''steward_status'' =
      [Some (SStr ''rejected'')]"
    by (simp only: golden_column_def example_reject_table option.case list.map
        example_rejected_row)
  have quiet: "messages
        (reject_button example_engine 1 ''changed my mind'' ''Another Steward'' None
           (approve_button example_engine 1 example_edits ''same person'' ''Data Steward'' None
              example_steward_app)) =
      [Success ''Golden record approved with your edits!'', Success ''Record rejected!'']"
    unfolding example_reject_after_approve
    by (simp add: st_success_def example_steward_messages)
  show ?thesis
    by (intro conjI example_steward_status approved rejected quiet)
qed

text \<open>
  Comments with a quote in them end the literal early. With one quote the statement does
  not parse: the connector reports the error, nothing is written, and the function
  returns \<open>True\<close> all the same.
\<close>

lemma update_golden_record_status_quote_fails:
  "update_golden_record_status example_engine 1 ''rejected'' ''don't match'' ''Data Steward'' None
     example_steward_app =
   (True, st_error example_steward_app ''Database connection error: PARSE_SYNTAX_ERROR'')"
  by (simp add: update_golden_record_status_def run_query_def
      sql_query_with_service_principal_def execute_def run_sql_text_def sql_lex_def
      update_status_query_def quoted_def lex_start_def is_space_def is_word_char_def
      string_of_nat.simps example_steward_app_def example_app_def example_warehouse_def
      example_config_def get_table_reference_def Let_def)

text \<open>
  C4. The reject button with empty comments reports
  \<open>Please provide comments when rejecting a record.\<close> and does nothing else: no statement is
  sent, the warehouse (so the record's status, comments, reviewer and timestamps) and the
  rest of the app state are as they were.
\<close>

theorem reject_without_comments:
  "reject_button eng golden_record_id [] steward_name user_token s =
     st_error s ''Please provide comments when rejecting a record.''
   \<and> wh (reject_button eng golden_record_id [] steward_name user_token s) = wh s
   \<and> messages (reject_button eng golden_record_id [] steward_name user_token s) =
       messages s @ [Error ''Please provide comments when rejecting a record.'']"
  by (simp add: reject_button_def st_error_def)

theorem reject_without_comments_witness:
  "golden_column example_steward_app ''danny_catalog.healthcare_mdm_schema.patients_gold''
     ''steward_status'' = [Some (SStr ''pending'')]
   \<and> golden_tables (wh (reject_button example_engine 1 [] ''Data Steward'' None example_steward_app)) =
       golden_tables (wh example_steward_app)
   \<and> messages (reject_button example_engine 1 [] ''Data Steward'' None example_steward_app) =
       [Error ''Please provide comments when rejecting a record.'']"
proof -
  have "wh (reject_button example_engine 1 [] ''Data Steward'' None example_steward_app) =
      wh example_steward_app"
    and msgs: "messages (reject_button example_engine 1 [] ''Data Steward'' None example_steward_app) =
      messages example_steward_app @ [Error ''Please provide comments when rejecting a record.'']"
    using reject_without_comments [of example_engine 1 "''Data Steward''" None example_steward_app]
    by (simp_all add: st_error_def)
  then have "golden_tables (wh (reject_button example_engine 1 [] ''Data Steward'' None
      example_steward_app)) = golden_tables (wh example_steward_app)"
    by simp
  moreover have "messages example_steward_app = []"
    by (simp add: example_steward_app_def example_app_def)
  ultimately show ?thesis
    using msgs example_steward_status by simp
qed

text \<open>
  C10. The statement is built by putting \<open>comments\<close> between quotes without escaping it (the
  sibling \<open>update_golden_record_with_steward_edits\<close> doubles the quotes of the field values
  it writes). Comments that hold a quote end the literal early; with the comments
  \<^verbatim>\<open>x', patient_name = 'Mallory\<close> the \<open>SET\<close> clause has a sixth assignment, and rejecting
  record 1 changes its \<open>patient_name\<close> from \<open>John Smith\<close> to \<open>Mallory\<close>.
\<close>

theorem update_golden_record_status_injection:
  "golden_column example_steward_app ''danny_catalog.healthcare_mdm_schema.patients_gold''
     ''patient_name'' = [Some (SStr ''John Smith'')]
   \<and> fst (update_golden_record_status example_engine 1 ''rejected''
          ''x', patient_name = 'Mallory'' ''Data Steward'' None example_steward_app)
   \<and> golden_column
        (snd (update_golden_record_status example_engine 1 ''rejected''
                ''x', patient_name = 'Mallory'' ''Data Steward'' None example_steward_app))
        ''danny_catalog.healthcare_mdm_schema.patients_gold'' ''patient_name'' =
      [Some (SStr ''Mallory'')]
   \<and> golden_column
        (snd (update_golden_record_status example_engine 1 ''rejected''
                ''x', patient_name = 'Mallory'' ''Data Steward'' None example_steward_app))
        ''danny_catalog.healthcare_mdm_schema.patients_gold'' ''steward_comments'' =
      [Some (SStr ''x'')]"
proof -
  have run: "update_golden_record_status example_engine 1 ''rejected''
      ''x', patient_name = 'Mallory'' ''Data Steward'' None example_steward_app =
    (True, example_steward_app\<lparr>wh := (wh example_steward_app)\<lparr>golden_tables :=
       [''danny_catalog.healthcare_mdm_schema.patients_gold'' \<mapsto>
          [example_golden_row ++ map_of
             [(''steward_status'', SStr ''rejected''), (''steward_comments'', SStr ''x''),
              (''patient_name'', SStr ''Mallory''), (''approved_by'', SStr ''Data Steward''),
              (''approved_at'', STimestamp 1000), (''updated_at'', STimestamp 1000)]]]\<rparr>\<rparr>)"
    by (simp add: update_golden_record_status_def run_query_def
        sql_query_with_service_principal_def execute_def run_sql_text_def sql_lex_def
        update_status_query_def quoted_def lex_start_def is_space_def is_word_char_def
        string_of_nat.simps parse_update_def parse_assignment_def parse_where_def
        nat_of_string_def digit_value_def run_update_def assignment_value_def golden_schema_def
        store_as_def and_then_def
        example_steward_app_def example_app_def example_warehouse_def example_config_def
        get_table_reference_def example_golden_row_def Let_def)
  have before: "golden_column example_steward_app
      ''danny_catalog.healthcare_mdm_schema.patients_gold'' ''patient_name'' =
      [Some (SStr ''John Smith'')]"
    by (simp add: golden_column_def example_steward_app_def example_golden_row_def)
  have ok: "fst (update_golden_record_status example_engine 1 ''rejected''
          ''x', patient_name = 'Mallory'' ''Data Steward'' None example_steward_app)"
    unfolding run by simp
  have name: "golden_column
        (snd (update_golden_record_status example_engine 1 ''rejected''
                ''x', patient_name = 'Mallory'' ''Data Steward'' None example_steward_app))
        ''danny_catalog.healthcare_mdm_schema.patients_gold'' ''patient_name'' =
      [Some (SStr ''Mallory'')]"
    unfolding run by (simp add: golden_column_def)
  have comments: "golden_column
        (snd (update_golden_record_status example_engine 1 ''rejected''
                ''x', patient_name = 'Mallory'' ''Data Steward'' None example_steward_app))
        ''danny_catalog.healthcare_mdm_schema.patients_gold'' ''steward_comments'' =
      [Some (SStr ''x'')]"
    unfolding run by (simp add: golden_column_def)
  show ?thesis
    by (intro conjI before ok name comments)
qed

end
